theory Spec2Isabelle
  imports Complex_Main
begin

section \<open>Python values used by the validation engine\<close>

text \<open>
  The sources are Python. Integers are unbounded (\<open>int\<close>), strings are character lists.
  Python floats are modelled by exact rationals: the engine only divides two integers,
  multiplies by 100, parses short decimal literals and compares with the literals
  70, 75, 85, 90 and 7.0, so the model and IEEE doubles order these values the same way
  unless an operand needs more than fifteen significant digits. Character classes are
  the ASCII ones; bytes above 127 are neither digits, word characters nor white space.
\<close>

subsection \<open>Characters and strings\<close>

definition is_digit :: "char \<Rightarrow> bool" where
  "is_digit c = (c \<in> set ''0123456789'')"

definition is_upper :: "char \<Rightarrow> bool" where
  "is_upper c = (c \<in> set ''ABCDEFGHIJKLMNOPQRSTUVWXYZ'')"

definition is_word :: "char \<Rightarrow> bool" where
  "is_word c = (c \<in> set ''abcdefghijklmnopqrstuvwxyzABCDEFGHIJKLMNOPQRSTUVWXYZ0123456789_'')"

definition is_space :: "char \<Rightarrow> bool" where
  "is_space c = (c \<in> set [CHR 0x20, CHR 0x09, CHR 0x0A, CHR 0x0B, CHR 0x0C, CHR 0x0D,
                            CHR 0x1C, CHR 0x1D, CHR 0x1E, CHR 0x1F])"

text \<open>\<open>str.lower()\<close> on ASCII text.\<close>

definition lower_char :: "char \<Rightarrow> char" where
  "lower_char c = (case map_of (zip ''ABCDEFGHIJKLMNOPQRSTUVWXYZ'' ''abcdefghijklmnopqrstuvwxyz'') c of
                     Some l \<Rightarrow> l | None \<Rightarrow> c)"

definition lower :: "string \<Rightarrow> string" where
  "lower s = map lower_char s"

text \<open>\<open>s.startswith(p)\<close> and the substring test \<open>sub in s\<close>.\<close>

fun startswith :: "string \<Rightarrow> string \<Rightarrow> bool" where
  "startswith s [] = True"
| "startswith [] (p # ps) = False"
| "startswith (c # cs) (p # ps) = (c = p \<and> startswith cs ps)"

fun py_in :: "string \<Rightarrow> string \<Rightarrow> bool" where
  "py_in sub [] = (sub = [])"
| "py_in sub (c # cs) = (startswith (c # cs) sub \<or> py_in sub cs)"

text \<open>\<open>s.split('\n')\<close>: always at least one piece.\<close>

fun split_on :: "char \<Rightarrow> string \<Rightarrow> string list" where
  "split_on d [] = [[]]"
| "split_on d (c # cs) =
     (if c = d then [] # split_on d cs
      else (case split_on d cs of [] \<Rightarrow> [[c]] | l # ls \<Rightarrow> (c # l) # ls))"

definition split_lines :: "string \<Rightarrow> string list" where
  "split_lines s = split_on (CHR 0x0A) s"

text \<open>\<open>s.strip()\<close>.\<close>

definition strip :: "string \<Rightarrow> string" where
  "strip s = rev (dropWhile is_space (rev (dropWhile is_space s)))"

text \<open>\<open>str(n)\<close> for an integer, and \<open>int(s)\<close> for a string of ASCII digits.\<close>

definition digit_char :: "nat \<Rightarrow> char" where
  "digit_char d = ''0123456789'' ! (d mod 10)"

function str_nat :: "nat \<Rightarrow> string" where
  "str_nat n = (if n < 10 then [digit_char n] else str_nat (n div 10) @ [digit_char (n mod 10)])"
  by pat_completeness auto
termination
  by (relation "measure id") auto

declare str_nat.simps [simp del]

definition str_int :: "int \<Rightarrow> string" where
  "str_int i = (if i < 0 then CHR ''-'' # str_nat (nat (- i)) else str_nat (nat i))"

definition digit_val :: "char \<Rightarrow> nat" where
  "digit_val c = (case map_of (zip ''0123456789'' [0, 1, 2, 3, 4, 5, 6, 7, 8, 9]) c of
                    Some d \<Rightarrow> d | None \<Rightarrow> 0)"

definition nat_of_digits :: "string \<Rightarrow> nat" where
  "nat_of_digits s = foldl (\<lambda>acc c. 10 * acc + digit_val c) 0 s"

text \<open>
  The format \<open>{x:.1f}\<close> of a float: one decimal, ties to even, on the rational model.
\<close>

definition round_half_even :: "rat \<Rightarrow> int" where
  "round_half_even x =
     (let f = \<lfloor>x\<rfloor>; d = x - of_int f
      in if d < 1 / 2 then f else if 1 / 2 < d then f + 1 else if even f then f else f + 1)"

definition fmt_1f :: "rat \<Rightarrow> string" where
  "fmt_1f x =
     (let t = nat (round_half_even (\<bar>x\<bar> * 10))
      in (if x < 0 then ''-'' else '''') @ str_nat (t div 10) @ ''.'' @ str_nat (t mod 10))"

subsection \<open>Exceptions\<close>

text \<open>
  \<open>VXLANTestException\<close> (vxlan\_exceptions.py) and its subclasses carry the text of
  \<open>str(e)\<close>; every other exception carries its type name and its text.
\<close>

datatype exn =
    VXLANTestException string
  | PyException string string

fun exn_str :: "exn \<Rightarrow> string" where
  "exn_str (VXLANTestException msg) = msg"
| "exn_str (PyException ty msg) = msg"

fun exn_type :: "exn \<Rightarrow> string" where
  "exn_type (VXLANTestException msg) = ''VXLANTestException''"
| "exn_type (PyException ty msg) = ty"

definition ZeroDivisionError :: exn where
  "ZeroDivisionError = PyException ''ZeroDivisionError'' ''division by zero''"

section \<open>Data model\<close>

text \<open>vxlan\_utils.py: the dataclasses \<open>VNIInfo\<close> and \<open>BGPNeighbor\<close>; a peer is the
  dictionary \<open>{'ip': ..., 'state': ...}\<close> built by \<open>parse_nve_peers\<close>.\<close>

record VNIInfo =
  vni :: int
  vni_type :: string
  vlan :: "int option"
  vrf :: "string option"
  vni_state :: "string option"
  replication :: "string option"

record BGPNeighbor =
  ip :: string
  state :: string
  uptime :: "string option"
  prefixes :: "int option"

record peer =
  peer_ip :: string
  peer_state :: string

text \<open>The values stored in \<open>details: Dict[str, Any]\<close>.\<close>

datatype detail =
    DNone
  | DInt int
  | DFloat rat
  | DStr string
  | DStrs "string list"
  | DPairs "(string \<times> string) list"
  | DPeers "peer list"
  | DVnis "VNIInfo list"
  | DNeighbors "BGPNeighbor list"

datatype severity = Info | Warning | Error | Critical

text \<open>vxlan\_validators.py: \<open>ValidationResult\<close>; the severity strings
  \<open>'info'\<close>, \<open>'warning'\<close>, \<open>'error'\<close>, \<open>'critical'\<close> are the only ones ever built.\<close>

record ValidationResult =
  passed :: bool
  message :: string
  details :: "(string \<times> detail) list"
  recommendations :: "string list"
  severity :: severity

text \<open>\<open>BaseValidator.create_result\<close>; the defaults \<open>None\<close> of \<open>details\<close> and
  \<open>recommendations\<close> become the empty dictionary and the empty list.\<close>

definition create_result ::
  "bool \<Rightarrow> string \<Rightarrow> (string \<times> detail) list \<Rightarrow> string list \<Rightarrow> severity \<Rightarrow> ValidationResult" where
  "create_result p msg det recs sev =
     \<lparr>passed = p, message = msg, details = det, recommendations = recs, severity = sev\<rparr>"

text \<open>vxlan\_config.py: \<open>VXLANThresholds\<close> with its defaults; the environment may
  override the first three fields with any integer.\<close>

record VXLANThresholds =
  max_vni_count :: int
  max_peer_count :: int
  error_counter_threshold :: int
  bgp_neighbor_timeout :: int
  interface_up_timeout :: int

definition default_thresholds :: VXLANThresholds where
  "default_thresholds =
     \<lparr>max_vni_count = 12000, max_peer_count = 500, error_counter_threshold = 100,
      bgp_neighbor_timeout = 300, interface_up_timeout = 60\<rparr>"

section \<open>Regular expressions\<close>

text \<open>
  The fragment of Python's \<open>re\<close> that the patterns of \<open>REGEX_PATTERNS\<close> use: a character
  class, concatenation, greedy repetition \<open>{lo,hi}\<close> (\<open>hi = None\<close> for \<open>*\<close> and
  \<open>+\<close>), a numbered group, \<open>\b\<close> and \<open>^\<close>. The matcher backtracks as \<open>re\<close>
  does: it explores the alternatives in priority order and stops at the first one for
  which the continuation succeeds. A matching state is the character before the current
  position together with the rest of the text.
\<close>

datatype rx =
    Ch "char \<Rightarrow> bool"
  | Cat rx rx
  | Rpt rx nat "nat option"
  | Grp nat rx
  | Bnd
  | Bol

type_synonym mstate = "char option \<times> string"
type_synonym caps = "(nat \<times> string) list"

fun rpt ::
  "(mstate \<Rightarrow> caps \<Rightarrow> (mstate \<Rightarrow> caps \<Rightarrow> 'a option) \<Rightarrow> 'a option) \<Rightarrow> nat \<Rightarrow> nat \<Rightarrow>
   mstate \<Rightarrow> caps \<Rightarrow> (mstate \<Rightarrow> caps \<Rightarrow> 'a option) \<Rightarrow> 'a option" where
  "rpt f lo 0 st c k = (if lo = 0 then k st c else None)"
| "rpt f lo (Suc h) st c k =
     (case f st c (\<lambda>st' c'. if length (snd st') < length (snd st)
                              then rpt f (lo - 1) h st' c' k else None) of
        Some r \<Rightarrow> Some r
      | None \<Rightarrow> (if lo = 0 then k st c else None))"

primrec rx_match :: "rx \<Rightarrow> mstate \<Rightarrow> caps \<Rightarrow> (mstate \<Rightarrow> caps \<Rightarrow> 'a option) \<Rightarrow> 'a option" where
  "rx_match (Ch p) =
     (\<lambda>st c k. case snd st of [] \<Rightarrow> None | x # xs \<Rightarrow> if p x then k (Some x, xs) c else None)"
| "rx_match (Cat a b) = (\<lambda>st c k. rx_match a st c (\<lambda>st' c'. rx_match b st' c' k))"
| "rx_match (Rpt r lo hi) =
     (\<lambda>st c k. rpt (rx_match r) lo (case hi of None \<Rightarrow> length (snd st) | Some h \<Rightarrow> h) st c k)"
| "rx_match (Grp n r) =
     (\<lambda>st c k. rx_match r st c
        (\<lambda>st' c'. k st' ((n, take (length (snd st) - length (snd st')) (snd st)) # c')))"
| "rx_match Bnd =
     (\<lambda>st c k. if (case fst st of None \<Rightarrow> False | Some x \<Rightarrow> is_word x)
                  \<noteq> (case snd st of [] \<Rightarrow> False | x # xs \<Rightarrow> is_word x)
               then k st c else None)"
| "rx_match Bol = (\<lambda>st c k. if fst st = None then k st c else None)"

text \<open>\<open>re.search\<close>: the leftmost start at which the pattern matches. The result is the
  matched text (\<open>group()\<close>), the groups, and the state after the match.\<close>

fun search_from :: "rx \<Rightarrow> char option \<Rightarrow> string \<Rightarrow> (string \<times> caps \<times> mstate) option" where
  "search_from r p [] =
     rx_match r (p, []) [] (\<lambda>st c. Some ([], c, st))"
| "search_from r p (x # xs) =
     (case rx_match r (p, x # xs) []
             (\<lambda>st c. Some (take (length (x # xs) - length (snd st)) (x # xs), c, st)) of
        Some res \<Rightarrow> Some res
      | None \<Rightarrow> search_from r (Some x) xs)"

definition search :: "rx \<Rightarrow> string \<Rightarrow> (string \<times> caps) option" where
  "search r s = map_option (\<lambda>(txt, c, st). (txt, c)) (search_from r None s)"

definition group :: "caps \<Rightarrow> nat \<Rightarrow> string" where
  "group c n = (case map_of c n of Some g \<Rightarrow> g | None \<Rightarrow> [])"




subsection \<open>Pattern constructors\<close>

definition lit :: "char \<Rightarrow> rx" where
  "lit a = Ch (\<lambda>c. c = a)"

fun lits :: "string \<Rightarrow> rx" where
  "lits [] = Rpt (Ch (\<lambda>c. True)) 0 (Some 0)"
| "lits [a] = lit a"
| "lits (a # b # bs) = Cat (lit a) (lits (b # bs))"

definition plus :: "rx \<Rightarrow> rx" where
  "plus r = Rpt r 1 None"

definition star :: "rx \<Rightarrow> rx" where
  "star r = Rpt r 0 None"

fun cats :: "rx list \<Rightarrow> rx" where
  "cats [] = Rpt (Ch (\<lambda>c. True)) 0 (Some 0)"
| "cats [r] = r"
| "cats (r # q # rs) = Cat r (cats (q # rs))"

subsection \<open>\<open>REGEX_PATTERNS\<close> (vxlan\_config.py)\<close>

text \<open>\<^verbatim>\<open>system:\s+version\s+(\d+\.\d+)\<close>\<close>

definition nxos_version :: rx where
  "nxos_version =
     cats [lits ''system:'', plus (Ch is_space), lits ''version'', plus (Ch is_space),
           Grp 1 (cats [plus (Ch is_digit), lit CHR ''.'', plus (Ch is_digit)])]"

text \<open>\<^verbatim>\<open>\b(?:[0-9]{1,3}\.){3}[0-9]{1,3}\b\<close>\<close>

definition ip_address :: rx where
  "ip_address =
     cats [Bnd, Rpt (Cat (Rpt (Ch is_digit) 1 (Some 3)) (lit CHR ''.'')) 3 (Some 3),
           Rpt (Ch is_digit) 1 (Some 3), Bnd]"

text \<open>\<^verbatim>\<open>^\s*(\d+)\<close>\<close>

definition vni_number :: rx where
  "vni_number = cats [Bol, star (Ch is_space), Grp 1 (plus (Ch is_digit))]"

text \<open>\<^verbatim>\<open>VLAN:\s*(\d+)\<close>\<close>

definition vlan_number :: rx where
  "vlan_number = cats [lits ''VLAN:'', star (Ch is_space), Grp 1 (plus (Ch is_digit))]"

text \<open>\<^verbatim>\<open>VRF:\s*(\w+)\<close>\<close>

definition vrf_name :: rx where
  "vrf_name = cats [lits ''VRF:'', star (Ch is_space), Grp 1 (plus (Ch is_word))]"

text \<open>\<^verbatim>\<open>(\d+\.\d+\.\d+\.\d+)\s+\d+\s+\d+\s+\d+\s+\d+\s+(\w+)\<close>\<close>

definition bgp_neighbor_state :: rx where
  "bgp_neighbor_state =
     cats [Grp 1 (cats [plus (Ch is_digit), lit CHR ''.'', plus (Ch is_digit), lit CHR ''.'',
                        plus (Ch is_digit), lit CHR ''.'', plus (Ch is_digit)]),
           plus (Ch is_space), plus (Ch is_digit), plus (Ch is_space), plus (Ch is_digit),
           plus (Ch is_space), plus (Ch is_digit), plus (Ch is_space), plus (Ch is_digit),
           plus (Ch is_space), Grp 2 (plus (Ch is_word))]"

text \<open>\<^verbatim>\<open>(\w+(?:-\w+)*)\s+\d+\s+(\w+)\<close>\<close>

definition feature_status :: rx where
  "feature_status =
     cats [Grp 1 (Cat (plus (Ch is_word)) (star (Cat (lit CHR ''-'') (plus (Ch is_word))))),
           plus (Ch is_space), plus (Ch is_digit), plus (Ch is_space), Grp 2 (plus (Ch is_word))]"


section \<open>Parsers\<close>

text \<open>\<open>VXLANParser\<close> (vxlan\_utils.py). Each parser scans the lines of the output in
  order and appends one record per line on which its anchor pattern is found; none of
  them raises.\<close>

text \<open>\<open>float(s)\<close> for a text matched by \<^verbatim>\<open>\d+\.\d+\<close>.\<close>

definition float_of_decimal :: "string \<Rightarrow> rat" where
  "float_of_decimal s =
     (let whole = takeWhile is_digit s; frac = drop (length whole + 1) s
      in of_nat (nat_of_digits whole) + of_nat (nat_of_digits frac) / 10 ^ length frac)"

definition parse_nxos_version :: "string \<Rightarrow> rat option" where
  "parse_nxos_version output =
     (case search nxos_version output of
        Some (txt, c) \<Rightarrow> Some (float_of_decimal (group c 1))
      | None \<Rightarrow> None)"

definition peer_of_line :: "string \<Rightarrow> peer option" where
  "peer_of_line line =
     (case search ip_address line of
        Some (txt, c) \<Rightarrow>
          Some \<lparr>peer_ip = txt, peer_state = (if py_in ''Up'' line then ''Up'' else ''Down'')\<rparr>
      | None \<Rightarrow> None)"

definition parse_nve_peers :: "string \<Rightarrow> peer list" where
  "parse_nve_peers output = List.map_filter peer_of_line (split_lines output)"

definition vni_of_line :: "string \<Rightarrow> VNIInfo option" where
  "vni_of_line line =
     (case search vni_number line of
        None \<Rightarrow> None
      | Some (txt, c) \<Rightarrow>
          Some \<lparr>vni = int (nat_of_digits (group c 1)),
                vni_type = (if py_in ''L3'' line then ''L3'' else ''L2''),
                vlan = (case search vlan_number line of
                          Some (t, g) \<Rightarrow> Some (int (nat_of_digits (group g 1)))
                        | None \<Rightarrow> None),
                vrf = (case search vrf_name line of
                         Some (t, g) \<Rightarrow> Some (group g 1)
                       | None \<Rightarrow> None),
                vni_state = (if py_in ''Up'' line then Some ''Up''
                             else if py_in ''Down'' line then Some ''Down'' else None),
                replication = None\<rparr>)"

definition parse_vni_info :: "string \<Rightarrow> VNIInfo list" where
  "parse_vni_info output = List.map_filter vni_of_line (split_lines output)"

definition neighbor_of_line :: "string \<Rightarrow> BGPNeighbor option" where
  "neighbor_of_line line =
     (case search bgp_neighbor_state line of
        Some (txt, c) \<Rightarrow> Some \<lparr>ip = group c 1, state = group c 2, uptime = None, prefixes = None\<rparr>
      | None \<Rightarrow> None)"

definition parse_bgp_neighbors :: "string \<Rightarrow> BGPNeighbor list" where
  "parse_bgp_neighbors output = List.map_filter neighbor_of_line (split_lines output)"

text \<open>A dictionary that keeps insertion order: assigning to a present key keeps its place.\<close>

fun dict_set :: "'k \<Rightarrow> 'v \<Rightarrow> ('k \<times> 'v) list \<Rightarrow> ('k \<times> 'v) list" where
  "dict_set k v [] = [(k, v)]"
| "dict_set k v ((k', v') # kvs) = (if k' = k then (k, v) # kvs else (k', v') # dict_set k v kvs)"

definition parse_feature_status :: "string \<Rightarrow> (string \<times> string) list" where
  "parse_feature_status output =
     foldl (\<lambda>features line.
              case search feature_status line of
                Some (txt, c) \<Rightarrow> dict_set (group c 1) (lower (group c 2)) features
              | None \<Rightarrow> features)
           [] (split_lines output)"

section \<open>Command execution\<close>

text \<open>The device is the external collaborator: a command yields its output, or the text
  of the exception that \<open>device.execute\<close> raised. \<open>DeviceExecutor.execute_command\<close>
  turns every such exception into a \<open>CommandExecutionError\<close>, whose \<open>str\<close> names the
  device and the command when they are not empty.\<close>

type_synonym device = "string \<Rightarrow> string + string"

definition execute_command :: "device \<Rightarrow> string \<Rightarrow> string \<Rightarrow> exn + string" where
  "execute_command dev device_name command =
     (case dev command of
        Inr output \<Rightarrow> Inr output
      | Inl e \<Rightarrow>
          Inl (VXLANTestException
                 (''Command execution failed: '' @ e
                  @ (if device_name \<noteq> [] then '' (Device: '' @ device_name @ '')'' else [])
                  @ (if command \<noteq> [] then '' (Command: '' @ command @ '')'' else []))))"

definition show_version :: string where "show_version = ''show version''"
definition show_feature :: string where "show_feature = ''show feature''"
definition show_nve_interface :: string where "show_nve_interface = ''show interface nve1''"
definition show_nve_peers :: string where "show_nve_peers = ''show nve peers''"
definition show_nve_vni :: string where "show_nve_vni = ''show nve vni''"
definition show_nve_vni_ingress :: string where
  "show_nve_vni_ingress = ''show nve vni ingress-replication''"
definition show_bgp_evpn_summary :: string where
  "show_bgp_evpn_summary = ''show bgp l2vpn evpn summary''"
definition show_bgp_evpn_routes :: string where "show_bgp_evpn_routes = ''show bgp l2vpn evpn''"

section \<open>Resource usage\<close>

text \<open>\<open>VNIValidator._validate_vni_usage\<close> (vxlan\_validators.py). The division raises
  \<open>ZeroDivisionError\<close> when the configured maximum is zero.\<close>

definition validate_vni_usage :: "VXLANThresholds \<Rightarrow> int \<Rightarrow> exn + ValidationResult" where
  "validate_vni_usage cfg current_vnis =
     (let max_vnis = max_vni_count cfg in
      if max_vnis = 0 then Inl ZeroDivisionError
      else
        let percentage = (rat_of_int current_vnis / rat_of_int max_vnis) * 100;
            usage = str_int current_vnis @ ''/'' @ str_int max_vnis @ '' ('' @ fmt_1f percentage @ ''%)'';
            det = [(''percentage'', DFloat percentage), (''current'', DInt current_vnis),
                   (''max'', DInt max_vnis)]
        in if 90 \<le> percentage then
             Inr (create_result False (''Critical VNI usage: '' @ usage) det
                   [''Immediate action required - approaching VNI limit'',
                    ''Review and remove unused VNIs'',
                    ''Consider VNI consolidation strategies'',
                    ''Plan for additional hardware if needed'']
                   Critical)
           else if 75 \<le> percentage then
             Inr (create_result False (''High VNI usage: '' @ usage) det
                   [''Monitor VNI growth trends'',
                    ''Plan for capacity expansion'',
                    ''Optimize VNI allocation'']
                   Warning)
           else
             Inr (create_result True (''VNI usage within acceptable limits: '' @ usage) det [] Info))"

text \<open>\<open>VXLANValidator.validate_resource_usage\<close> (vxlan\_utils.py): the same rule for any
  resource type, returning the pair \<open>(ok, info)\<close>; the cut points depend on the type.\<close>

definition warning_threshold :: "string \<Rightarrow> rat" where
  "warning_threshold resource_type = (if resource_type = ''vni'' then 70 else 75)"

definition critical_threshold :: "string \<Rightarrow> rat" where
  "critical_threshold resource_type = (if resource_type = ''vni'' then 85 else 90)"

definition validate_resource_usage ::
  "string \<Rightarrow> int \<Rightarrow> int \<Rightarrow> exn + (bool \<times> (string \<times> detail) list)" where
  "validate_resource_usage resource_type current maximum =
     (if maximum = 0 then Inl ZeroDivisionError
      else
        let percentage = (rat_of_int current / rat_of_int maximum) * 100
        in if critical_threshold resource_type \<le> percentage then
             Inr (False,
                  [(''level'', DStr ''critical''), (''percentage'', DFloat percentage),
                   (''recommendations'', DStrs
                      [''Immediate action required - '' @ resource_type @ '' usage is ''
                         @ fmt_1f percentage @ ''%'',
                       ''Consider capacity planning and optimization'',
                       ''Review '' @ resource_type @ '' allocation and remove unused entries''])])
           else if warning_threshold resource_type \<le> percentage then
             Inr (False,
                  [(''level'', DStr ''warning''), (''percentage'', DFloat percentage),
                   (''recommendations'', DStrs
                      [''Warning - '' @ resource_type @ '' usage is '' @ fmt_1f percentage @ ''%'',
                       ''Plan for capacity expansion'',
                       ''Monitor '' @ resource_type @ '' growth trends''])])
           else
             Inr (True,
                  [(''level'', DStr ''ok''), (''percentage'', DFloat percentage),
                   (''recommendations'', DStrs [])]))"

section \<open>Formatting\<close>

text \<open>\<open>repr\<close> of a string and of a list of strings, as an f-string renders
  \<open>{[p['ip'] for p in down_peers]}\<close>.\<close>

definition hex_digit :: "nat \<Rightarrow> char" where
  "hex_digit d = ''0123456789abcdef'' ! (d mod 16)"

definition repr_char :: "char \<Rightarrow> char \<Rightarrow> string" where
  "repr_char q c =
     (if c = CHR 0x5C then [CHR 0x5C, CHR 0x5C]
      else if c = q then [CHR 0x5C, q]
      else if c = CHR 0x0A then [CHR 0x5C, CHR ''n'']
      else if c = CHR 0x0D then [CHR 0x5C, CHR ''r'']
      else if c = CHR 0x09 then [CHR 0x5C, CHR ''t'']
      else if (of_char c :: nat) < 32 \<or> (of_char c :: nat) = 127
        then [CHR 0x5C, CHR ''x'', hex_digit (of_char c div 16), hex_digit (of_char c)]
      else [c])"

definition py_repr_str :: "string \<Rightarrow> string" where
  "py_repr_str s =
     (let q = (if CHR 0x27 \<in> set s \<and> CHR 0x22 \<notin> set s then CHR 0x22 else CHR 0x27)
      in q # concat (map (repr_char q) s) @ [q])"

fun join :: "string \<Rightarrow> string list \<Rightarrow> string" where
  "join sep [] = []"
| "join sep [x] = x"
| "join sep (x # y # ys) = x @ sep @ join sep (y # ys)"

definition py_repr_list :: "string list \<Rightarrow> string" where
  "py_repr_list xs = ''['' @ join '', '' (map py_repr_str xs) @ '']''"

text \<open>\<open>str\<close> of a float with a finite decimal expansion (a parsed version number).\<close>

fun frac_digits :: "nat \<Rightarrow> rat \<Rightarrow> string" where
  "frac_digits 0 x = []"
| "frac_digits (Suc n) x =
     (if x = 0 then []
      else let d = \<lfloor>x * 10\<rfloor> in digit_char (nat d) # frac_digits n (x * 10 - of_int d))"

definition float_str :: "rat \<Rightarrow> string" where
  "float_str x =
     (let a = \<bar>x\<bar>; whole = \<lfloor>a\<rfloor>; fd = frac_digits 17 (a - of_int whole)
      in (if x < 0 then ''-'' else []) @ str_nat (nat whole) @ ''.''
         @ (if fd = [] then ''0'' else fd))"

text \<open>\<open>s.count(sub)\<close>: occurrences that do not overlap.\<close>

function count_sub :: "string \<Rightarrow> string \<Rightarrow> nat" where
  "count_sub sub s =
     (if sub = [] then length s + 1
      else case s of
             [] \<Rightarrow> 0
           | c # cs \<Rightarrow> if startswith s sub then 1 + count_sub sub (drop (length sub) s)
                       else count_sub sub cs)"
  by pat_completeness auto
termination
  by (relation "measure (\<lambda>(sub, s). length s)") auto

declare count_sub.simps [simp del]

section \<open>Validators\<close>

text \<open>vxlan\_validators.py. Every validator runs one command and wraps its whole body
  in \<open>try ... except Exception\<close>, so it returns a result whatever happens.\<close>

subsection \<open>\<open>PlatformValidator.validate_platform_support\<close>\<close>

definition validate_platform_support :: "device \<Rightarrow> string \<Rightarrow> ValidationResult" where
  "validate_platform_support dev device_name =
     (case execute_command dev device_name show_version of
        Inl e \<Rightarrow>
          create_result False (''Platform validation failed: '' @ exn_str e) []
            [''Check device connectivity and access permissions''] Error
      | Inr output \<Rightarrow>
          if \<not> py_in ''nexus'' (lower output) \<or> \<not> py_in ''9000'' output then
            create_result False ''Platform may not support VXLAN - expecting Nexus 9000 series'' []
              [''Verify platform VXLAN support in documentation'',
               ''Check hardware capabilities and licensing'']
              Warning
          else
            (case parse_nxos_version output of
               None \<Rightarrow>
                 create_result False ''Could not determine NX-OS version'' []
                   [''Check '' @ [CHR 0x27] @ ''show version'' @ [CHR 0x27] @ '' output format'']
                   Error
             | Some version \<Rightarrow>
                 if version < 7 then
                   create_result False
                     (''NX-OS '' @ float_str version @ '' does not support VXLAN (minimum: 7.0)'') []
                     [''Upgrade NX-OS to version 7.0 or higher'',
                      ''Current version may have limited VXLAN functionality'']
                     Critical
                 else
                   create_result True
                     (''Platform supports VXLAN (NX-OS '' @ float_str version @ '')'')
                     [(''version'', DFloat version), (''platform'', DStr ''Nexus 9000'')] [] Info))"

text \<open>\<open>VXLANValidator.validate_nxos_version\<close> (vxlan\_utils.py): the version rule alone.\<close>

definition validate_nxos_version :: "rat option \<Rightarrow> bool \<times> string" where
  "validate_nxos_version version =
     (case version of
        None \<Rightarrow> (False, ''Could not determine NX-OS version'')
      | Some v \<Rightarrow>
          if v < 7 then (False, ''NX-OS '' @ float_str v @ '' does not support VXLAN (minimum: 7.0)'')
          else (True, ''NX-OS '' @ float_str v @ '' supports VXLAN''))"

subsection \<open>\<open>FeatureValidator.validate_vxlan_features\<close>\<close>

definition required_features :: "(string \<times> string) list" where
  "required_features =
     [(''vn-segment-vlan-based'', ''feature vn-segment-vlan-based''),
      (''nv overlay'', ''feature nv overlay'')]"

definition validate_vxlan_features :: "device \<Rightarrow> string \<Rightarrow> ValidationResult" where
  "validate_vxlan_features dev device_name =
     (case execute_command dev device_name show_feature of
        Inl e \<Rightarrow>
          create_result False (''Feature validation failed: '' @ exn_str e) []
            [''Check '' @ [CHR 0x27] @ ''show feature'' @ [CHR 0x27] @ '' command output''] Error
      | Inr output \<Rightarrow>
          let features = parse_feature_status output;
              missing_features =
                map fst (filter (\<lambda>(f, cmd). map_of features f = None) required_features);
              disabled_features =
                filter (\<lambda>(f, cmd). map_of features f \<noteq> None \<and> map_of features f \<noteq> Some ''enabled'')
                  required_features
          in if missing_features \<noteq> [] \<or> disabled_features \<noteq> [] then
               create_result False ''Required VXLAN features not enabled''
                 ((if disabled_features \<noteq> [] then [(''disabled'', DPairs disabled_features)] else [])
                  @ (if missing_features \<noteq> [] then [(''missing'', DStrs missing_features)] else []))
                 ((if disabled_features \<noteq> []
                   then map (\<lambda>(f, cmd). ''Enable with: '' @ cmd) disabled_features else [])
                  @ (if missing_features \<noteq> []
                     then [''Features may not be available on this platform''] else []))
                 Critical
             else
               create_result True ''All required VXLAN features are enabled''
                 [(''enabled_features'', DStrs (map fst required_features))] [] Info)"

subsection \<open>\<open>InterfaceValidator\<close>\<close>

text \<open>\<^verbatim>\<open>source-interface:\s*(\S+)\<close> with \<open>re.IGNORECASE\<close>.\<close>

definition source_interface_rx :: rx where
  "source_interface_rx =
     cats [cats (map (\<lambda>a. Ch (\<lambda>c. lower_char c = a)) ''source-interface:''),
           star (Ch is_space), Grp 1 (plus (Ch (\<lambda>c. \<not> is_space c)))]"

definition validate_nve_interface :: "device \<Rightarrow> string \<Rightarrow> ValidationResult" where
  "validate_nve_interface dev device_name =
     (case execute_command dev device_name show_nve_interface of
        Inl e \<Rightarrow>
          create_result False (''NVE interface validation failed: '' @ exn_str e) []
            [''Check NVE interface configuration''] Error
      | Inr output \<Rightarrow>
          if py_in ''invalid interface'' (lower output) \<or> py_in ''not found'' (lower output) then
            create_result False ''NVE1 interface not configured'' []
              [''Configure NVE interface: interface nve1'',
               ''Add source-interface configuration'',
               ''Enable no shutdown'']
              Critical
          else if py_in ''administratively down'' (lower output) then
            create_result False ''NVE1 interface is administratively down'' []
              [''Enable interface: interface nve1 -> no shutdown''] Error
          else if \<not> py_in ''line protocol is up'' (lower output) then
            create_result False ''NVE1 interface line protocol is down'' []
              [''Check source-interface configuration and status'',
               ''Verify underlay connectivity'',
               ''Check routing to peer devices'',
               ''Verify no conflicting configuration'']
              Error
          else if \<not> py_in ''source-interface'' (lower output) then
            create_result False ''NVE1 missing source-interface configuration'' []
              [''Configure source interface: interface nve1 -> source-interface <interface>'',
               ''Use loopback interface for stability'']
              Error
          else
            create_result True ''NVE1 interface is properly configured and operational''
              [(''source_interface'',
                  DStr (case search source_interface_rx output of
                          Some (txt, c) \<Rightarrow> group c 1 | None \<Rightarrow> ''unknown'')),
               (''admin_status'', DStr ''up''), (''oper_status'', DStr ''up'')]
              [] Info)"

text \<open>\<open>validate_nve_peers\<close>, from the point where the peers have been parsed.\<close>

definition nve_peers_result :: "peer list \<Rightarrow> ValidationResult" where
  "nve_peers_result peers =
     (if peers = [] then
        create_result False ''NVE peers table exists but no peers found'' []
          [''Check underlay connectivity'', ''Verify VXLAN configuration on peer devices'']
          Warning
      else
        let up_peers = filter (\<lambda>p. peer_state p = ''Up'') peers;
            total_peers = int (length peers);
            up_count = int (length up_peers)
        in if up_count = 0 then
             create_result False (''All '' @ str_int total_peers @ '' NVE peers are down'')
               [(''peers'', DPeers peers)]
               [''Check underlay routing to peer IPs'',
                ''Verify source-interface reachability'',
                ''Check for network connectivity issues'',
                ''Verify VXLAN configuration on peers'']
               Critical
           else if up_count < total_peers then
             (let down_peers = filter (\<lambda>p. peer_state p \<noteq> ''Up'') peers
              in create_result False
                   (''Only '' @ str_int up_count @ ''/'' @ str_int total_peers @ '' NVE peers are up'')
                   [(''up_peers'', DPeers up_peers), (''down_peers'', DPeers down_peers)]
                   [''Check connectivity to down peers: '' @ py_repr_list (map peer_ip down_peers),
                    ''Verify underlay routing'',
                    ''Check peer device status'']
                   Error)
           else
             create_result True (''All '' @ str_int total_peers @ '' NVE peers are up and healthy'')
               [(''peers'', DPeers peers), (''peer_count'', DInt total_peers)] [] Info)"

definition validate_nve_peers :: "device \<Rightarrow> string \<Rightarrow> ValidationResult" where
  "validate_nve_peers dev device_name =
     (case execute_command dev device_name show_nve_peers of
        Inl e \<Rightarrow>
          create_result False (''NVE peer validation failed: '' @ exn_str e) []
            [''Check NVE peer configuration and connectivity''] Error
      | Inr output \<Rightarrow>
          if \<not> py_in ''Peer-IP'' output then
            create_result True
              ''No NVE peers configured (acceptable for single-node deployments)'' []
              [''For multi-node VXLAN, configure peer discovery'',
               ''Verify underlay routing for peer reachability'']
              Info
          else nve_peers_result (parse_nve_peers output))"

text \<open>\<open>VXLANValidator.validate_nve_peers\<close> (vxlan\_utils.py): the same rule on a list
  of peers, returning the pair \<open>(ok, info)\<close>.\<close>

definition VXLANValidator_validate_nve_peers :: "peer list \<Rightarrow> bool \<times> (string \<times> detail) list" where
  "VXLANValidator_validate_nve_peers peers =
     (if peers = [] then
        (False, [(''issue'', DStr ''no_peers''), (''details'', DStr ''No NVE peers configured'')])
      else
        let up_peers = filter (\<lambda>p. peer_state p = ''Up'') peers;
            total_peers = int (length peers);
            up_count = int (length up_peers)
        in if up_count = 0 then
             (False, [(''issue'', DStr ''all_peers_down''),
                      (''details'', DStr (''All '' @ str_int total_peers @ '' peers are down'')),
                      (''peers'', DPeers peers)])
           else if up_count < total_peers then
             (False, [(''issue'', DStr ''some_peers_down''),
                      (''details'', DStr (''Only '' @ str_int up_count @ ''/'' @ str_int total_peers
                                          @ '' peers are up'')),
                      (''peers'', DPeers peers)])
           else
             (True, [(''issue'', DNone),
                     (''details'', DStr (''All '' @ str_int total_peers @ '' peers are up'')),
                     (''peers'', DPeers peers)]))"

subsection \<open>\<open>VNIValidator\<close>\<close>

text \<open>The issues that one VNI adds in the loop of \<open>validate_vni_configuration\<close>: the
  association issue of its type first, then the state issue.\<close>

definition vni_issues :: "VNIInfo \<Rightarrow> string list" where
  "vni_issues v =
     (if vni_type v = ''L2'' then
        (if vlan v = None then [''L2 VNI '' @ str_int (vni v) @ '' missing VLAN association''] else [])
      else if vni_type v = ''L3'' then
        (if vrf v = None then [''L3 VNI '' @ str_int (vni v) @ '' missing VRF association''] else [])
      else [])
     @ (if vni_state v = Some ''Down'' then [''VNI '' @ str_int (vni v) @ '' is in Down state''] else [])"

text \<open>\<open>validate_vni_configuration\<close>, from the point where the VNIs have been parsed. The
  usage check runs before the issues are looked at, so its \<open>ZeroDivisionError\<close> reaches
  the \<open>except\<close> clause of the validator.\<close>

definition vni_configuration_result :: "VXLANThresholds \<Rightarrow> VNIInfo list \<Rightarrow> ValidationResult" where
  "vni_configuration_result cfg vnis =
     (if vnis = [] then
        create_result False ''VNI section exists but no VNIs parsed'' []
          [''Check VNI configuration format''] Error
      else
        let issues = concat (map vni_issues vnis);
            l2_vnis = filter (\<lambda>v. vni_type v = ''L2'') vnis;
            l3_vnis = filter (\<lambda>v. vni_type v = ''L3'') vnis;
            total_vnis = int (length vnis)
        in case validate_vni_usage cfg total_vnis of
             Inl e \<Rightarrow>
               create_result False (''VNI validation failed: '' @ exn_str e) []
                 [''Check VNI configuration and command output''] Error
           | Inr usage_result \<Rightarrow>
               if issues \<noteq> [] then
                 create_result False
                   (''VNI configuration issues found: '' @ str_int (int (length issues)) @ '' problems'')
                   [(''issues'', DStrs issues),
                    (''l2_vni_count'', DInt (int (length l2_vnis))),
                    (''l3_vni_count'', DInt (int (length l3_vnis))),
                    (''total_vnis'', DInt total_vnis)]
                   [''Fix VNI-to-VLAN/VRF mappings'',
                    ''Check VNI state and troubleshoot down VNIs'',
                    ''Verify consistent configuration across fabric'']
                   Error
               else
                 create_result (passed usage_result)
                   (''Found '' @ str_int total_vnis @ '' properly configured VNIs (''
                    @ str_int (int (length l2_vnis)) @ '' L2, ''
                    @ str_int (int (length l3_vnis)) @ '' L3)'')
                   [(''l2_vnis'', DVnis l2_vnis), (''l3_vnis'', DVnis l3_vnis),
                    (''total_vnis'', DInt total_vnis),
                    (''usage_percentage'',
                       (case map_of (details usage_result) ''percentage'' of
                          Some p \<Rightarrow> p | None \<Rightarrow> DInt 0))]
                   (if \<not> passed usage_result then recommendations usage_result else [])
                   (severity usage_result))"

definition validate_vni_configuration :: "VXLANThresholds \<Rightarrow> device \<Rightarrow> string \<Rightarrow> ValidationResult" where
  "validate_vni_configuration cfg dev device_name =
     (case execute_command dev device_name show_nve_vni of
        Inl e \<Rightarrow>
          create_result False (''VNI validation failed: '' @ exn_str e) []
            [''Check VNI configuration and command output''] Error
      | Inr output \<Rightarrow>
          if \<not> py_in ''VNI'' output then
            create_result False ''No VNIs configured'' []
              [''Configure VNI-to-VLAN mappings'',
               ''Example: vlan 100 -> vn-segment 10100'',
               ''Add VNI to NVE interface: interface nve1 -> member vni 10100'']
              Warning
          else vni_configuration_result cfg (parse_vni_info output))"

text \<open>\<open>VXLANValidator.validate_vni_configuration\<close> (vxlan\_utils.py): the association
  rule alone, returning \<open>(ok, issues)\<close>.\<close>

definition utils_vni_issues :: "VNIInfo \<Rightarrow> string list" where
  "utils_vni_issues v =
     (if vni_type v = ''L2'' \<and> vlan v = None
      then [''L2 VNI '' @ str_int (vni v) @ '' missing VLAN association''] else [])
     @ (if vni_type v = ''L3'' \<and> vrf v = None
        then [''L3 VNI '' @ str_int (vni v) @ '' missing VRF association''] else [])
     @ (if vni_state v = Some ''Down'' then [''VNI '' @ str_int (vni v) @ '' is in Down state''] else [])"

definition VXLANValidator_validate_vni_configuration :: "VNIInfo list \<Rightarrow> bool \<times> string list" where
  "VXLANValidator_validate_vni_configuration vnis =
     (if vnis = [] then (False, [''No VNIs configured''])
      else let issues = concat (map utils_vni_issues vnis) in (length issues = 0, issues))"

text \<open>\<open>validate_ingress_replication\<close>.\<close>

definition validate_ingress_replication :: "device \<Rightarrow> string \<Rightarrow> ValidationResult" where
  "validate_ingress_replication dev device_name =
     (case execute_command dev device_name show_nve_vni_ingress of
        Inl e \<Rightarrow>
          create_result True ''Ingress replication check not applicable'' []
            [''Manual verification may be required''] Info
      | Inr output \<Rightarrow>
          if \<not> py_in ''VNI'' output then
            create_result True
              ''No specific ingress replication configuration (may use defaults)'' []
              [''Consider configuring explicit ingress replication'',
               ''Options: BGP EVPN or static peer lists'']
              Info
          else
            let has_bgp = (py_in ''protocol-bgp'' (lower output) \<or> py_in ''bgp'' (lower output));
                has_static = py_in ''static'' (lower output)
            in if \<not> has_bgp \<and> \<not> has_static then
                 create_result False ''Ingress replication not properly configured'' []
                   [''Configure BGP EVPN for automatic peer discovery'',
                    ''Or configure static ingress replication lists'',
                    ''Example: interface nve1 -> member vni 10100 ingress-replication protocol bgp'']
                   Error
               else
                 let method = (if has_bgp then ''BGP EVPN'' else ''Static'')
                 in create_result True (''Ingress replication configured using '' @ method)
                      [(''method'', DStr method)] [] Info)"

subsection \<open>\<open>BGPValidator\<close>\<close>

text \<open>\<open>validate_bgp_evpn\<close>, from the point where the neighbors have been parsed.\<close>

definition bgp_evpn_result :: "BGPNeighbor list \<Rightarrow> ValidationResult" where
  "bgp_evpn_result neighbors =
     (if neighbors = [] then
        create_result False ''No BGP EVPN neighbors configured'' []
          [''Configure BGP EVPN neighbors'',
           ''Example: neighbor <ip> remote-as <AS>'',
           ''Activate EVPN address family for neighbors'']
          Error
      else
        let established = filter (\<lambda>n. lower (state n) = ''established'') neighbors;
            total = int (length neighbors);
            established_count = int (length established)
        in if established_count = 0 then
             create_result False
               (''No BGP EVPN neighbors in established state (0/'' @ str_int total @ '')'')
               [(''neighbors'', DNeighbors neighbors)]
               [''Check BGP neighbor connectivity'',
                ''Verify AS numbers and neighbor IPs'',
                ''Check routing to neighbor addresses'',
                ''Review BGP authentication if configured'']
               Critical
           else if established_count < total then
             (let down_neighbors = filter (\<lambda>n. lower (state n) \<noteq> ''established'') neighbors
              in create_result False
                   (''Only '' @ str_int established_count @ ''/'' @ str_int total
                    @ '' BGP EVPN neighbors established'')
                   [(''established'', DNeighbors established), (''down'', DNeighbors down_neighbors)]
                   [''Troubleshoot down neighbors: '' @ py_repr_list (map ip down_neighbors),
                    ''Check neighbor connectivity and configuration'',
                    ''Verify BGP timers and authentication'']
                   Error)
           else
             create_result True (''All '' @ str_int total @ '' BGP EVPN neighbors are established'')
               [(''neighbors'', DNeighbors neighbors), (''established_count'', DInt established_count)]
               [] Info)"

definition validate_bgp_evpn :: "device \<Rightarrow> string \<Rightarrow> ValidationResult" where
  "validate_bgp_evpn dev device_name =
     (case execute_command dev device_name show_bgp_evpn_summary of
        Inl e \<Rightarrow>
          create_result False (''BGP EVPN validation failed: '' @ exn_str e) []
            [''Check BGP configuration and status''] Error
      | Inr output \<Rightarrow>
          if py_in ''bgp is not running'' (lower output) \<or> py_in ''invalid command'' (lower output) then
            create_result False ''BGP is not running or EVPN not configured'' []
              [''Enable BGP: feature bgp'',
               ''Configure BGP process: router bgp <AS>'',
               ''Enable EVPN address family: address-family l2vpn evpn'']
              Error
          else bgp_evpn_result (parse_bgp_neighbors output))"

text \<open>\<open>VXLANValidator.validate_bgp_evpn\<close> (vxlan\_utils.py).\<close>

definition VXLANValidator_validate_bgp_evpn ::
  "BGPNeighbor list \<Rightarrow> bool \<times> (string \<times> detail) list" where
  "VXLANValidator_validate_bgp_evpn neighbors =
     (if neighbors = [] then
        (False, [(''issue'', DStr ''no_neighbors''),
                 (''details'', DStr ''No BGP EVPN neighbors configured'')])
      else
        let established = filter (\<lambda>n. lower (state n) = ''established'') neighbors;
            total = int (length neighbors);
            established_count = int (length established)
        in if established_count = 0 then
             (False, [(''issue'', DStr ''no_established_neighbors''),
                      (''details'', DStr (''No BGP EVPN neighbors in established state (0/''
                                          @ str_int total @ '')'')),
                      (''neighbors'', DNeighbors neighbors)])
           else if established_count < total then
             (False, [(''issue'', DStr ''some_neighbors_down''),
                      (''details'', DStr (''Only '' @ str_int established_count @ ''/''
                                          @ str_int total @ '' BGP EVPN neighbors established'')),
                      (''neighbors'', DNeighbors neighbors)])
           else
             (True, [(''issue'', DNone),
                     (''details'', DStr (''All '' @ str_int total @ '' BGP EVPN neighbors established'')),
                     (''neighbors'', DNeighbors neighbors)]))"

text \<open>\<open>validate_evpn_routes\<close>.\<close>

definition validate_evpn_routes :: "device \<Rightarrow> string \<Rightarrow> ValidationResult" where
  "validate_evpn_routes dev device_name =
     (case execute_command dev device_name
             (show_bgp_evpn_routes @ '' | include '' @ [CHR 0x27] @ ''Route Distinguisher'' @ [CHR 0x27]) of
        Inl e \<Rightarrow>
          create_result True ''EVPN route check not applicable or failed'' []
            [''Manual verification may be required''] Info
      | Inr output \<Rightarrow>
          if strip output = [] then
            create_result False ''No EVPN routes found'' []
              [''Check VXLAN VNI configuration'',
               ''Verify BGP EVPN route advertisement'',
               ''Ensure VNIs are associated with NVE interface'']
              Warning
          else
            let rd_count = int (count_sub ''Route Distinguisher'' output)
            in if rd_count = 0 then
                 create_result False ''No route distinguishers found in EVPN table'' []
                   [''Configure route distinguisher for VRFs'',
                    ''Check EVPN route advertisement configuration'']
                   Error
               else
                 create_result True (''Found '' @ str_int rd_count @ '' EVPN route distinguishers'')
                   [(''rd_count'', DInt rd_count)] [] Info)"

section \<open>Processing a check's result\<close>

text \<open>base\_test.py. A test case keeps \<open>test_results\<close>, a dictionary from device name to a
  dictionary from test name to the recorded result. The step is the external runner's;
  the verdict it is given is returned.\<close>

type_synonym test_results = "(string \<times> (string \<times> ValidationResult) list) list"

datatype step_verdict = StepPassed string | StepFailed string | StepSkipped string

definition record_test_result ::
  "string \<Rightarrow> string \<Rightarrow> ValidationResult \<Rightarrow> test_results \<Rightarrow> test_results" where
  "record_test_result device_name test_name result results =
     (let tests = (case map_of results device_name of Some t \<Rightarrow> t | None \<Rightarrow> [])
      in dict_set device_name (dict_set test_name result tests) results)"

definition bullet :: string where
  "bullet = [CHR 0xE2, CHR 0x80, CHR 0xA2]"

definition process_validation_result ::
  "string \<Rightarrow> string \<Rightarrow> ValidationResult \<Rightarrow> test_results \<Rightarrow> step_verdict \<times> test_results" where
  "process_validation_result device_name test_name result results =
     (let results' = record_test_result device_name test_name result results
      in if passed result then (StepPassed (message result), results')
         else
           let failure_msg =
                 message result
                 @ (if recommendations result \<noteq> [] then
                      [CHR 0x0A, CHR 0x0A] @ ''Recommendations:'' @ [CHR 0x0A]
                      @ join [CHR 0x0A] (map (\<lambda>rec. ''  '' @ bullet @ '' '' @ rec) (recommendations result))
                    else [])
           in if severity result = Critical \<or> severity result = Error \<or> severity result = Warning
              then (StepFailed failure_msg, results')
              else (StepSkipped failure_msg, results'))"

text \<open>\<open>StructuredTestStep.validate_and_process\<close>. Calling the validator either returns
  a result or raises; a \<open>VXLANTestException\<close> carries no \<open>recommendations\<close> attribute and
  an empty \<open>details\<close> unless its raiser set them, which no validator does.\<close>

definition validate_and_process ::
  "string \<Rightarrow> string \<Rightarrow> exn + ValidationResult \<Rightarrow> test_results \<Rightarrow>
   ValidationResult \<times> step_verdict \<times> test_results" where
  "validate_and_process device_name test_name outcome results =
     (let result =
            (case outcome of
               Inr r \<Rightarrow> r
             | Inl (VXLANTestException msg) \<Rightarrow>
                 \<lparr>passed = False, message = msg, details = [], recommendations = [],
                  severity = Error\<rparr>
             | Inl (PyException ty msg) \<Rightarrow>
                 \<lparr>passed = False, message = ''Unexpected error: '' @ msg,
                  details = [(''exception_type'', DStr ty)],
                  recommendations = [''Check device connectivity and configuration''],
                  severity = Error\<rparr>)
      in (result, process_validation_result device_name test_name result results))"

section \<open>Interface statistics\<close>












section \<open>Summary report\<close>

text \<open>enhanced\_vxlan\_testsuite.py, \<open>CommonCleanup.generate_summary_report\<close>. The test
  cases found on the parent are given in the order of the report's list, each with its
  \<open>test_results\<close> and \<open>device_metrics\<close>. \<open>all_results.update\<close> replaces the whole entry
  of a device; the metrics are merged per device.\<close>

definition dict_update :: "('k \<times> 'v) list \<Rightarrow> ('k \<times> 'v) list \<Rightarrow> ('k \<times> 'v) list" where
  "dict_update d other = foldl (\<lambda>acc (k, v). dict_set k v acc) d other"

definition collect_results :: "test_results list \<Rightarrow> test_results" where
  "collect_results instances = foldl dict_update [] instances"

type_synonym device_metrics = "(string \<times> (string \<times> detail) list) list"

definition collect_metrics :: "device_metrics list \<Rightarrow> device_metrics" where
  "collect_metrics instances =
     foldl (\<lambda>all_metrics device_metrics.
              foldl (\<lambda>acc (device, metrics).
                       dict_set device
                         (dict_update (case map_of acc device of Some m \<Rightarrow> m | None \<Rightarrow> []) metrics) acc)
                    all_metrics device_metrics)
           [] instances"

definition device_results :: "test_results \<Rightarrow> string \<Rightarrow> ValidationResult list" where
  "device_results all_results d =
     map snd (case map_of all_results d of Some tests \<Rightarrow> tests | None \<Rightarrow> [])"

definition counted_healthy :: "test_results \<Rightarrow> string \<Rightarrow> bool" where
  "counted_healthy all_results d =
     (\<not> list_ex (\<lambda>result. \<not> passed result \<and> severity result \<in> set [Error, Critical])
          (device_results all_results d))"

text \<open>The totals of the overall summary: \<open>(total_devices, healthy_devices)\<close>.\<close>

definition overall_summary :: "test_results list \<Rightarrow> string list \<Rightarrow> nat \<times> nat" where
  "overall_summary instances devices =
     (let all_results = collect_results instances
      in (length devices, length (filter (counted_healthy all_results) devices)))"

section \<open>Sample inputs\<close>

text \<open>A device that answers every command with the same output, and one on which every
  command fails.\<close>

definition const_device :: "string \<Rightarrow> device" where
  "const_device output command = Inr output"

definition failing_device :: "string \<Rightarrow> device" where
  "failing_device e command = Inl e"

definition two_peers :: "peer list" where
  "two_peers = [\<lparr>peer_ip = ''10.0.0.1'', peer_state = ''Up''\<rparr>,
                \<lparr>peer_ip = ''10.0.0.2'', peer_state = ''Down''\<rparr>]"

definition two_neighbors :: "BGPNeighbor list" where
  "two_neighbors = [\<lparr>ip = ''10.0.0.1'', state = ''Established'', uptime = None, prefixes = None\<rparr>,
                    \<lparr>ip = ''10.0.0.2'', state = ''Idle'', uptime = None, prefixes = None\<rparr>]"

definition uptime_peers_output :: string where
  "uptime_peers_output =
     ''Peer-IP State'' @ [CHR 0x0A] @ ''10.0.0.2 Down Uptime 00:10'' @ [CHR 0x0A] @ ''10.0.0.3 n/a''"

definition nexus_without_version :: string where
  "nexus_without_version = ''Cisco Nexus 9000 Series''"

definition nexus_old_version :: string where
  "nexus_old_version = ''Cisco Nexus 9000 system: version 6.2(1)''"

definition nexus_new_version :: string where
  "nexus_new_version = ''Cisco Nexus 9000 system: version 9.3(5)''"

definition three_vnis_output :: string where
  "three_vnis_output =
     ''Interface VNI'' @ [CHR 0x0A] @ ''5001 L2 VLAN: 101 Up'' @ [CHR 0x0A]
     @ ''5002 L2 VLAN: 102 Up'' @ [CHR 0x0A] @ ''9001 L3 VRF: red Up''"

definition three_vnis :: "VNIInfo list" where
  "three_vnis =
     [\<lparr>vni = 5001, vni_type = ''L2'', vlan = Some 101, vrf = None, vni_state = Some ''Up'',
       replication = None\<rparr>,
      \<lparr>vni = 5002, vni_type = ''L2'', vlan = Some 102, vrf = None, vni_state = Some ''Up'',
       replication = None\<rparr>,
      \<lparr>vni = 9001, vni_type = ''L3'', vlan = None, vrf = Some ''red'', vni_state = Some ''Up'',
       replication = None\<rparr>]"

definition faulty_vnis :: "VNIInfo list" where
  "faulty_vnis =
     [\<lparr>vni = 5001, vni_type = ''L2'', vlan = None, vrf = None, vni_state = Some ''Down'',
       replication = None\<rparr>,
      \<lparr>vni = 9001, vni_type = ''L3'', vlan = None, vrf = None, vni_state = Some ''Up'',
       replication = None\<rparr>]"

definition four_vni_thresholds :: VXLANThresholds where
  "four_vni_thresholds = default_thresholds\<lparr>max_vni_count := 4\<rparr>"

definition two_vni_thresholds :: VXLANThresholds where
  "two_vni_thresholds = default_thresholds\<lparr>max_vni_count := 2\<rparr>"

text \<open>The order of severities in the words of the specification:
  info < warning < error < critical, and the worse of two severities.\<close>

fun severity_rank :: "severity \<Rightarrow> nat" where
  "severity_rank Info = 0"
| "severity_rank Warning = 1"
| "severity_rank Error = 2"
| "severity_rank Critical = 3"

definition worst_severity :: "severity \<Rightarrow> severity \<Rightarrow> severity" where
  "worst_severity a b = (if severity_rank a \<le> severity_rank b then b else a)"

definition hundred_vni_thresholds :: VXLANThresholds where
  "hundred_vni_thresholds = default_thresholds\<lparr>max_vni_count := 100\<rparr>"

definition zero_vni_thresholds :: VXLANThresholds where
  "zero_vni_thresholds = default_thresholds\<lparr>max_vni_count := 0\<rparr>"

definition prerequisite_results :: test_results where
  "prerequisite_results =
     [(''leaf1'',
       [(''platform_compatibility'',
         create_result False ''NX-OS 6.2 does not support VXLAN (minimum: 7.0)'' []
           [''Upgrade NX-OS to version 7.0 or higher'',
            ''Current version may have limited VXLAN functionality''] Critical)])]"

definition bgp_results :: test_results where
  "bgp_results =
     [(''leaf1'',
       [(''bgp_evpn_neighbors'',
         create_result True ''All 2 BGP EVPN neighbors are established''
           [(''established_count'', DInt 2)] [] Info)])]"




section \<open>Theorems\<close>

lemma cut_points_ordered: "warning_threshold rt < critical_threshold rt"
  by (simp add: warning_threshold_def critical_threshold_def)

text \<open>
  C1 (amended). Resource-threshold rule. For a current count \<open>c\<close> and a non-zero
  configured maximum \<open>m\<close>, with \<open>p = c / m * 100\<close>: the VNI usage check has the fixed
  cut points 75 and 90 and returns a failing critical result when \<open>p \<ge> 90\<close>, a failing
  warning result when \<open>75 \<le> p < 90\<close> and a passing result otherwise; the general
  resource check applies the same three tiers with the fixed cut points of its resource
  type, 70 and 85 for \<open>'vni'\<close> and 75 and 90 for every other type. The counterexample
  shows a VNI usage of 72 percent that the general check reports as a warning while the
  VNI validator passes it, and that neither check returns a result for a maximum of zero.
\<close>

theorem resource_threshold_rule:
  assumes "max_vni_count cfg = m" and "m \<noteq> 0"
  shows "\<exists>r ok info.
           validate_vni_usage cfg c = Inr r \<and>
           validate_resource_usage rt c m = Inr (ok, info) \<and>
           (let p = rat_of_int c / rat_of_int m * 100;
                w = warning_threshold rt; k = critical_threshold rt
            in (90 \<le> p \<longrightarrow> \<not> passed r \<and> severity r = Critical) \<and>
               (75 \<le> p \<and> p < 90 \<longrightarrow> \<not> passed r \<and> severity r = Warning) \<and>
               (p < 75 \<longrightarrow> passed r) \<and>
               w = (if rt = ''vni'' then 70 else 75) \<and>
               k = (if rt = ''vni'' then 85 else 90) \<and>
               w < k \<and>
               (k \<le> p \<longrightarrow> \<not> ok \<and> map_of info ''level'' = Some (DStr ''critical'')) \<and>
               (w \<le> p \<and> p < k \<longrightarrow> \<not> ok \<and> map_of info ''level'' = Some (DStr ''warning'')) \<and>
               (p < w \<longrightarrow> ok))"
proof -
  have a: "\<exists>r. validate_vni_usage cfg c = Inr r \<and>
             (let p = rat_of_int c / rat_of_int m * 100
              in (90 \<le> p \<longrightarrow> \<not> passed r \<and> severity r = Critical) \<and>
                 (75 \<le> p \<and> p < 90 \<longrightarrow> \<not> passed r \<and> severity r = Warning) \<and>
                 (p < 75 \<longrightarrow> passed r))"
    using assms
    by (auto simp: validate_vni_usage_def create_result_def Let_def)
  have b: "\<exists>ok info. validate_resource_usage rt c m = Inr (ok, info) \<and>
             (let p = rat_of_int c / rat_of_int m * 100;
                  w = warning_threshold rt; k = critical_threshold rt
              in (k \<le> p \<longrightarrow> \<not> ok \<and> map_of info ''level'' = Some (DStr ''critical'')) \<and>
                 (w \<le> p \<and> p < k \<longrightarrow> \<not> ok \<and> map_of info ''level'' = Some (DStr ''warning'')) \<and>
                 (p < w \<longrightarrow> ok))"
    using assms(2) cut_points_ordered [of rt]
    by (auto simp: validate_resource_usage_def Let_def)
  have c: "warning_threshold rt = (if rt = ''vni'' then 70 else 75)"
    "critical_threshold rt = (if rt = ''vni'' then 85 else 90)"
    by (simp_all add: warning_threshold_def critical_threshold_def)
  from a obtain r where r: "validate_vni_usage cfg c = Inr r"
    and rp: "let p = rat_of_int c / rat_of_int m * 100
             in (90 \<le> p \<longrightarrow> \<not> passed r \<and> severity r = Critical) \<and>
                (75 \<le> p \<and> p < 90 \<longrightarrow> \<not> passed r \<and> severity r = Warning) \<and>
                (p < 75 \<longrightarrow> passed r)"
    by blast
  from b obtain ok info where u: "validate_resource_usage rt c m = Inr (ok, info)"
    and up: "let p = rat_of_int c / rat_of_int m * 100;
                 w = warning_threshold rt; k = critical_threshold rt
             in (k \<le> p \<longrightarrow> \<not> ok \<and> map_of info ''level'' = Some (DStr ''critical'')) \<and>
                (w \<le> p \<and> p < k \<longrightarrow> \<not> ok \<and> map_of info ''level'' = Some (DStr ''warning'')) \<and>
                (p < w \<longrightarrow> ok)"
    by blast
  have "validate_vni_usage cfg c = Inr r \<and>
        validate_resource_usage rt c m = Inr (ok, info) \<and>
        (let p = rat_of_int c / rat_of_int m * 100;
             w = warning_threshold rt; k = critical_threshold rt
         in (90 \<le> p \<longrightarrow> \<not> passed r \<and> severity r = Critical) \<and>
            (75 \<le> p \<and> p < 90 \<longrightarrow> \<not> passed r \<and> severity r = Warning) \<and>
            (p < 75 \<longrightarrow> passed r) \<and>
            w = (if rt = ''vni'' then 70 else 75) \<and>
            k = (if rt = ''vni'' then 85 else 90) \<and>
            w < k \<and>
            (k \<le> p \<longrightarrow> \<not> ok \<and> map_of info ''level'' = Some (DStr ''critical'')) \<and>
            (w \<le> p \<and> p < k \<longrightarrow> \<not> ok \<and> map_of info ''level'' = Some (DStr ''warning'')) \<and>
            (p < w \<longrightarrow> ok))"
    using r u rp up by (simp add: Let_def c)
  then show ?thesis by blast
qed

theorem resource_threshold_rule_witness:
  "(\<exists>r. validate_vni_usage default_thresholds 9500 = Inr r \<and> \<not> passed r \<and> severity r = Warning) \<and>
   (\<exists>r. validate_vni_usage default_thresholds 11000 = Inr r \<and> \<not> passed r \<and> severity r = Critical) \<and>
   (\<exists>r. validate_vni_usage default_thresholds 100 = Inr r \<and> passed r) \<and>
   (\<exists>info. validate_resource_usage ''vni'' 9500 12000 = Inr (False, info) \<and>
           map_of info ''level'' = Some (DStr ''warning''))"
proof -
  have m: "max_vni_count default_thresholds = 12000" and nz: "(12000::int) \<noteq> 0"
    by (simp_all add: default_thresholds_def)
  have w1: "\<exists>r. validate_vni_usage default_thresholds 9500 = Inr r \<and> \<not> passed r \<and> severity r = Warning"
    using resource_threshold_rule [OF m nz, of 9500 "''vni''"] by (auto simp: Let_def)
  have w2: "\<exists>r. validate_vni_usage default_thresholds 11000 = Inr r \<and> \<not> passed r \<and> severity r = Critical"
    using resource_threshold_rule [OF m nz, of 11000 "''vni''"] by (auto simp: Let_def)
  have w3: "\<exists>r. validate_vni_usage default_thresholds 100 = Inr r \<and> passed r"
    using resource_threshold_rule [OF m nz, of 100 "''vni''"] by (auto simp: Let_def)
  have w4: "\<exists>info. validate_resource_usage ''vni'' 9500 12000 = Inr (False, info) \<and>
           map_of info ''level'' = Some (DStr ''warning'')"
    using resource_threshold_rule [OF m nz, of 9500 "''vni''"] by (auto simp: Let_def)
  from w1 w2 w3 w4 show ?thesis by blast
qed

theorem resource_threshold_rule_counterexample:
  "\<not> isl (validate_resource_usage ''vni'' 72 100) \<and>
   \<not> fst (projr (validate_resource_usage ''vni'' 72 100)) \<and>
   map_of (snd (projr (validate_resource_usage ''vni'' 72 100))) ''level'' = Some (DStr ''warning'') \<and>
   \<not> isl (validate_vni_usage hundred_vni_thresholds 72) \<and>
   passed (projr (validate_vni_usage hundred_vni_thresholds 72)) \<and>
   validate_vni_usage zero_vni_thresholds 5 = Inl ZeroDivisionError \<and>
   validate_resource_usage ''vni'' 5 0 = Inl ZeroDivisionError"
  by (simp add: validate_resource_usage_def validate_vni_usage_def warning_threshold_def
      critical_threshold_def hundred_vni_thresholds_def zero_vni_thresholds_def
      default_thresholds_def create_result_def Let_def)

subsection \<open>Substring test\<close>

lemma startswith_iff: "startswith s p \<longleftrightarrow> (\<exists>post. s = p @ post)"
  by (induction s p rule: startswith.induct) auto

lemma py_in_iff: "py_in sub s \<longleftrightarrow> (\<exists>pre post. s = pre @ sub @ post)"
proof (induction s)
  case Nil
  then show ?case by auto
next
  case (Cons c cs)
  show ?case
  proof
    assume "py_in sub (c # cs)"
    then consider "startswith (c # cs) sub" | "py_in sub cs" by auto
    then show "\<exists>pre post. c # cs = pre @ sub @ post"
    proof cases
      case 1
      then obtain post where "c # cs = sub @ post" by (auto simp: startswith_iff)
      then have "c # cs = [] @ sub @ post" by simp
      then show ?thesis by blast
    next
      case 2
      then obtain pre post where "cs = pre @ sub @ post" using Cons.IH by auto
      then have "c # cs = (c # pre) @ sub @ post" by simp
      then show ?thesis by blast
    qed
  next
    assume "\<exists>pre post. c # cs = pre @ sub @ post"
    then obtain pre post where e: "c # cs = pre @ sub @ post" by auto
    show "py_in sub (c # cs)"
    proof (cases pre)
      case Nil
      with e have "startswith (c # cs) sub" by (auto simp: startswith_iff)
      then show ?thesis by simp
    next
      case (Cons a pre')
      with e have "cs = pre' @ sub @ post" by simp
      then have "py_in sub cs" using Cons.IH by auto
      then show ?thesis by simp
    qed
  qed
qed

subsection \<open>Claims\<close>

text \<open>
  C2. State-majority rule. For a non-empty list of peers, with \<open>up\<close> the number of peers
  whose state is \<open>'Up'\<close> and \<open>total\<close> the number of all peers, the result is failing
  and critical when \<open>up = 0\<close>; failing with severity error when \<open>0 < up < total\<close>,
  with the message \<open>Only up/total NVE peers are up\<close>, the unhealthy peers under
  \<open>down_peers\<close> and their addresses in the first recommendation; and passing when
  \<open>up = total\<close>. The same holds for a non-empty list of BGP EVPN neighbors, healthy
  meaning that the lower-cased state is \<open>'established'\<close>. The stand-alone checks of
  vxlan\_utils.py pass exactly when \<open>up = total\<close>.
\<close>

theorem state_majority_rule:
  assumes "peers \<noteq> []" and "neighbors \<noteq> []"
  shows "(let up = length (filter (\<lambda>p. peer_state p = ''Up'') peers);
              total = length peers;
              down = filter (\<lambda>p. peer_state p \<noteq> ''Up'') peers;
              r = nve_peers_result peers
          in (up = 0 \<longrightarrow> \<not> passed r \<and> severity r = Critical) \<and>
             (0 < up \<and> up < total \<longrightarrow>
                \<not> passed r \<and> severity r = Error \<and>
                message r = ''Only '' @ str_int (int up) @ ''/'' @ str_int (int total) @ '' NVE peers are up'' \<and>
                map_of (details r) ''down_peers'' = Some (DPeers down) \<and>
                hd (recommendations r) = ''Check connectivity to down peers: '' @ py_repr_list (map peer_ip down)) \<and>
             (up = total \<longrightarrow> passed r) \<and>
             (fst (VXLANValidator_validate_nve_peers peers) \<longleftrightarrow> up = total)) \<and>
         (let up = length (filter (\<lambda>n. lower (state n) = ''established'') neighbors);
              total = length neighbors;
              down = filter (\<lambda>n. lower (state n) \<noteq> ''established'') neighbors;
              r = bgp_evpn_result neighbors
          in (up = 0 \<longrightarrow> \<not> passed r \<and> severity r = Critical) \<and>
             (0 < up \<and> up < total \<longrightarrow>
                \<not> passed r \<and> severity r = Error \<and>
                message r = ''Only '' @ str_int (int up) @ ''/'' @ str_int (int total)
                            @ '' BGP EVPN neighbors established'' \<and>
                map_of (details r) ''down'' = Some (DNeighbors down) \<and>
                hd (recommendations r) = ''Troubleshoot down neighbors: '' @ py_repr_list (map ip down)) \<and>
             (up = total \<longrightarrow> passed r) \<and>
             (fst (VXLANValidator_validate_bgp_evpn neighbors) \<longleftrightarrow> up = total))"
    (is "?A \<and> ?B")
proof
  have "length (filter (\<lambda>p. peer_state p = ''Up'') peers) < length peers
        \<or> length (filter (\<lambda>p. peer_state p = ''Up'') peers) = length peers"
    using length_filter_le [of "\<lambda>p. peer_state p = ''Up''" peers] by linarith
  moreover have "0 < length peers" using assms by simp
  ultimately show "?A"
    using assms(1)
    by (auto simp: Let_def nve_peers_result_def create_result_def
        VXLANValidator_validate_nve_peers_def)
next
  have "length (filter (\<lambda>n. lower (state n) = ''established'') neighbors) < length neighbors
        \<or> length (filter (\<lambda>n. lower (state n) = ''established'') neighbors) = length neighbors"
    using length_filter_le [of "\<lambda>n. lower (state n) = ''established''" neighbors] by linarith
  moreover have "0 < length neighbors" using assms by simp
  ultimately show "?B"
    using assms(2)
    by (auto simp: Let_def bgp_evpn_result_def create_result_def
        VXLANValidator_validate_bgp_evpn_def)
qed

theorem state_majority_rule_witness:
  "\<not> passed (nve_peers_result two_peers) \<and> severity (nve_peers_result two_peers) = Error \<and>
   message (nve_peers_result two_peers) = ''Only 1/2 NVE peers are up'' \<and>
   map_of (details (nve_peers_result two_peers)) ''down_peers''
     = Some (DPeers [\<lparr>peer_ip = ''10.0.0.2'', peer_state = ''Down''\<rparr>]) \<and>
   \<not> passed (bgp_evpn_result two_neighbors) \<and> severity (bgp_evpn_result two_neighbors) = Error \<and>
   message (bgp_evpn_result two_neighbors) = ''Only 1/2 BGP EVPN neighbors established''"
proof -
  have s1: "str_int 1 = ''1''" and s2: "str_int 2 = ''2''" by code_simp+
  have l: "lower ''Established'' = ''established''" "lower ''Idle'' = ''idle''" by code_simp+
  have ne: "two_peers \<noteq> []" "two_neighbors \<noteq> []" by (simp_all add: two_peers_def two_neighbors_def)
  from state_majority_rule [OF ne] show ?thesis
    by (simp add: Let_def two_peers_def two_neighbors_def s1 s2 l)
qed

lemma peer_of_line_eq:
  "peer_of_line line =
     (if search ip_address line \<noteq> None
      then Some \<lparr>peer_ip = fst (the (search ip_address line)),
                 peer_state = (if \<exists>pre post. line = pre @ ''Up'' @ post then ''Up'' else ''Down'')\<rparr>
      else None)"
  by (auto simp: peer_of_line_def py_in_iff split: option.splits)

text \<open>
  C10. NVE-peers extractor. The parser yields one record for each line of the output on
  which the IP pattern is found, in line order; the record's state is \<open>'Up'\<close> exactly
  when the character sequence \<open>Up\<close> occurs somewhere in that line and \<open>'Down'\<close>
  otherwise, so every state is \<open>'Up'\<close> or \<open>'Down'\<close>. The witness has a down peer
  whose line contains \<open>Uptime\<close>, classified \<open>'Up'\<close>, and a line with neither word,
  classified \<open>'Down'\<close>.
\<close>

theorem nve_peer_state_classification:
  "parse_nve_peers output =
     map (\<lambda>line. \<lparr>peer_ip = fst (the (search ip_address line)),
                   peer_state = (if \<exists>pre post. line = pre @ ''Up'' @ post then ''Up'' else ''Down'')\<rparr>)
       (filter (\<lambda>line. search ip_address line \<noteq> None) (split_lines output)) \<and>
   (\<forall>p \<in> set (parse_nve_peers output). peer_state p = ''Up'' \<or> peer_state p = ''Down'')"
proof -
  have a: "parse_nve_peers output =
     map (\<lambda>line. \<lparr>peer_ip = fst (the (search ip_address line)),
                   peer_state = (if \<exists>pre post. line = pre @ ''Up'' @ post then ''Up'' else ''Down'')\<rparr>)
       (filter (\<lambda>line. search ip_address line \<noteq> None) (split_lines output))"
    unfolding parse_nve_peers_def List.map_filter_def
    by (rule trans [OF map_cong [OF filter_cong [OF refl] refl]])
       (auto simp: peer_of_line_eq)
  show ?thesis
    apply (rule conjI [OF a])
    apply (subst a)
    apply auto
    done
qed

theorem nve_peer_state_classification_witness:
  "parse_nve_peers uptime_peers_output =
     [\<lparr>peer_ip = ''10.0.0.2'', peer_state = ''Up''\<rparr>, \<lparr>peer_ip = ''10.0.0.3'', peer_state = ''Down''\<rparr>]"
proof -
  have e: "parse_nve_peers uptime_peers_output =
     [\<lparr>peer_ip = ''10.0.0.2'', peer_state = ''Up''\<rparr>, \<lparr>peer_ip = ''10.0.0.3'', peer_state = ''Down''\<rparr>]"
    by code_simp
  from nve_peer_state_classification [of uptime_peers_output] e show ?thesis by simp
qed

text \<open>
  C3 (amended). Presence rules are keyed on the command output. A VNI output without the
  text \<open>VNI\<close> gives a failing warning, and one with it from which no VNI is parsed gives
  a failing error; a BGP summary from which no neighbor is parsed gives a failing error;
  a peers output without the header \<open>Peer-IP\<close> gives a passing info result, and one
  with the header from which no peer is parsed gives a failing warning. The
  counterexample shows an empty VNI collection with severity error and an empty peer
  collection that fails.
\<close>

theorem presence_rule:
  assumes "dev show_nve_vni = Inr vni_out"
    and "dev show_bgp_evpn_summary = Inr bgp_out"
    and "dev show_nve_peers = Inr peers_out"
  shows "(let r = validate_vni_configuration cfg dev device_name
          in (\<not> py_in ''VNI'' vni_out \<longrightarrow> \<not> passed r \<and> severity r = Warning) \<and>
             (py_in ''VNI'' vni_out \<and> parse_vni_info vni_out = [] \<longrightarrow> \<not> passed r \<and> severity r = Error)) \<and>
         (let r = validate_bgp_evpn dev device_name
          in parse_bgp_neighbors bgp_out = [] \<longrightarrow> \<not> passed r \<and> severity r = Error) \<and>
         (let r = validate_nve_peers dev device_name
          in (\<not> py_in ''Peer-IP'' peers_out \<longrightarrow> passed r \<and> severity r = Info) \<and>
             (py_in ''Peer-IP'' peers_out \<and> parse_nve_peers peers_out = [] \<longrightarrow>
                \<not> passed r \<and> severity r = Warning))"
  using assms
  by (simp add: Let_def validate_vni_configuration_def validate_bgp_evpn_def validate_nve_peers_def
      execute_command_def
      vni_configuration_result_def bgp_evpn_result_def nve_peers_result_def create_result_def)

theorem presence_rule_witness:
  "severity (validate_vni_configuration default_thresholds (const_device []) ''leaf1'') = Warning \<and>
   severity (validate_bgp_evpn (const_device []) ''leaf1'') = Error \<and>
   passed (validate_nve_peers (const_device []) ''leaf1'') \<and>
   severity (validate_vni_configuration default_thresholds (const_device ''VNI Peer-IP'') ''leaf1'') = Error \<and>
   \<not> passed (validate_nve_peers (const_device ''VNI Peer-IP'') ''leaf1'') \<and>
   severity (validate_nve_peers (const_device ''VNI Peer-IP'') ''leaf1'') = Warning"
proof -
  have e: "\<not> py_in ''VNI'' []" "\<not> py_in ''Peer-IP'' []" "parse_bgp_neighbors [] = []"
    "py_in ''VNI'' ''VNI Peer-IP''" "py_in ''Peer-IP'' ''VNI Peer-IP''"
    "parse_vni_info ''VNI Peer-IP'' = []" "parse_nve_peers ''VNI Peer-IP'' = []"
    by code_simp+
  have d: "\<And>out c. const_device out c = Inr out" by (simp add: const_device_def)
  from presence_rule [where dev = "const_device []" and cfg = default_thresholds
           and device_name = "''leaf1''", OF d d d]
       presence_rule [where dev = "const_device ''VNI Peer-IP''" and cfg = default_thresholds
           and device_name = "''leaf1''", OF d d d] e
  show ?thesis by (simp add: Let_def)
qed

theorem presence_rule_counterexample:
  "parse_vni_info ''VNI'' = [] \<and>
   severity (validate_vni_configuration default_thresholds (const_device ''VNI'') ''leaf1'') = Error \<and>
   parse_nve_peers ''Peer-IP'' = [] \<and>
   \<not> passed (validate_nve_peers (const_device ''Peer-IP'') ''leaf1'') \<and>
   severity (validate_nve_peers (const_device ''Peer-IP'') ''leaf1'') = Warning"
  by code_simp

text \<open>
  C5 (amended). Version rule. The platform gate comes first: an output that does not
  contain \<open>nexus\<close> (in any case) and \<open>9000\<close> gives a failing warning whatever its
  version. Behind the gate, an unparsable version gives a failing error with the message
  \<open>Could not determine NX-OS version\<close>, a version below 7.0 a failing critical result,
  and any other version a passing result. The stand-alone rule of vxlan\_utils.py fails for
  \<open>None\<close> and passes exactly from 7.0 on; the parser returns \<open>None\<close> when the pattern is
  not found and never raises.
\<close>

theorem version_rule:
  assumes "dev show_version = Inr output"
  shows "(let r = validate_platform_support dev device_name; v = parse_nxos_version output
          in (\<not> py_in ''nexus'' (lower output) \<or> \<not> py_in ''9000'' output \<longrightarrow>
                \<not> passed r \<and> severity r = Warning) \<and>
             (py_in ''nexus'' (lower output) \<and> py_in ''9000'' output \<longrightarrow>
                (case v of
                   None \<Rightarrow> \<not> passed r \<and> severity r = Error \<and>
                           message r = ''Could not determine NX-OS version''
                 | Some x \<Rightarrow> (x < 7 \<longrightarrow> \<not> passed r \<and> severity r = Critical) \<and>
                             (7 \<le> x \<longrightarrow> passed r))) \<and>
             (case v of
                None \<Rightarrow> validate_nxos_version v = (False, ''Could not determine NX-OS version'')
              | Some x \<Rightarrow> fst (validate_nxos_version v) = (7 \<le> x)) \<and>
             (search nxos_version output = None \<longrightarrow> v = None))"
  using assms
  by (auto simp: Let_def validate_platform_support_def execute_command_def create_result_def
      validate_nxos_version_def parse_nxos_version_def split: option.splits)

theorem version_rule_witness:
  "severity (validate_platform_support (const_device nexus_without_version) ''leaf1'') = Error \<and>
   message (validate_platform_support (const_device nexus_without_version) ''leaf1'')
     = ''Could not determine NX-OS version'' \<and>
   severity (validate_platform_support (const_device nexus_old_version) ''leaf1'') = Critical \<and>
   passed (validate_platform_support (const_device nexus_new_version) ''leaf1'')"
proof -
  have g: "py_in ''nexus'' (lower nexus_without_version)" "py_in ''9000'' nexus_without_version"
    "py_in ''nexus'' (lower nexus_old_version)" "py_in ''9000'' nexus_old_version"
    "py_in ''nexus'' (lower nexus_new_version)" "py_in ''9000'' nexus_new_version"
    by code_simp+
  have s: "search nxos_version nexus_without_version = None"
    "map_option (\<lambda>(txt, c). group c 1) (search nxos_version nexus_old_version) = Some ''6.2''"
    "map_option (\<lambda>(txt, c). group c 1) (search nxos_version nexus_new_version) = Some ''9.3''"
    by code_simp+
  have f: "float_of_decimal ''6.2'' = 62 / 10" "float_of_decimal ''9.3'' = 93 / 10"
    by (simp_all add: float_of_decimal_def Let_def is_digit_def nat_of_digits_def digit_val_def)
  have p: "\<And>out. parse_nxos_version out
             = map_option float_of_decimal (map_option (\<lambda>(txt, c). group c 1) (search nxos_version out))"
    by (simp add: parse_nxos_version_def split: option.splits)
  have v: "parse_nxos_version nexus_without_version = None"
    "parse_nxos_version nexus_old_version = Some (62 / 10)"
    "parse_nxos_version nexus_new_version = Some (93 / 10)"
    unfolding p s by (simp_all only: option.map f)
  have d: "\<And>out c. const_device out c = Inr out" by (simp add: const_device_def)
  from version_rule [where dev = "const_device nexus_without_version" and device_name = "''leaf1''", OF d]
       version_rule [where dev = "const_device nexus_old_version" and device_name = "''leaf1''", OF d]
       version_rule [where dev = "const_device nexus_new_version" and device_name = "''leaf1''", OF d] g v
  show ?thesis by (simp add: Let_def)
qed

theorem version_rule_counterexample:
  "parse_nxos_version ''Cisco IOS XE Software'' = None \<and>
   severity (validate_platform_support (const_device ''Cisco IOS XE Software'') ''leaf1'') = Warning"
  by code_simp

lemma vni_issues_count:
  "length (concat (map vni_issues vnis)) =
     length (filter (\<lambda>v. vni_type v = ''L2'' \<and> vlan v = None) vnis)
     + length (filter (\<lambda>v. vni_type v = ''L3'' \<and> vrf v = None) vnis)
     + length (filter (\<lambda>v. vni_state v = Some ''Down'') vnis)"
  by (induction vnis) (auto simp: vni_issues_def)

lemma utils_vni_issues_eq: "utils_vni_issues v = vni_issues v"
  by (simp add: utils_vni_issues_def vni_issues_def)

lemma no_vni_issues_iff:
  "concat (map vni_issues vnis) = [] \<longleftrightarrow>
     (\<forall>v \<in> set vnis. (vni_type v = ''L2'' \<longrightarrow> vlan v \<noteq> None) \<and>
                       (vni_type v = ''L3'' \<longrightarrow> vrf v \<noteq> None) \<and>
                       vni_state v \<noteq> Some ''Down'')"
  by (induction vnis) (auto simp: vni_issues_def)

lemma vni_usage_tiers:
  assumes "max_vni_count cfg \<noteq> 0"
  shows "\<exists>u. validate_vni_usage cfg c = Inr u \<and>
             (passed u \<longleftrightarrow> rat_of_int c / rat_of_int (max_vni_count cfg) * 100 < 75)"
  using assms by (auto simp: validate_vni_usage_def create_result_def Let_def)

text \<open>
  C4 (amended). Association rule. For a non-empty list of VNIs, every VNI is inspected and
  contributes one issue when it is L2 without a VLAN, one when it is L3 without a VRF and
  one when its state is \<open>'Down'\<close>; the stand-alone rule of vxlan\_utils.py returns all
  of them and passes exactly when there is none. In the VNI validator, with a non-zero
  configured maximum, one issue or more gives a single failing result of severity error
  that carries the whole list; with no issue the result is the verdict of the usage
  rule, passing exactly when the VNI count is below 75 percent of the maximum. The
  counterexample has three well-formed VNIs and a maximum of four: no issue, and a failing
  warning.
\<close>

theorem association_rule:
  assumes "vnis \<noteq> []" and "max_vni_count cfg \<noteq> 0"
  shows "(let issues = concat (map vni_issues vnis); r = vni_configuration_result cfg vnis
          in length issues =
               length (filter (\<lambda>v. vni_type v = ''L2'' \<and> vlan v = None) vnis)
               + length (filter (\<lambda>v. vni_type v = ''L3'' \<and> vrf v = None) vnis)
               + length (filter (\<lambda>v. vni_state v = Some ''Down'') vnis) \<and>
             VXLANValidator_validate_vni_configuration vnis = (issues = [], issues) \<and>
             (issues = [] \<longleftrightarrow>
                (\<forall>v \<in> set vnis. (vni_type v = ''L2'' \<longrightarrow> vlan v \<noteq> None) \<and>
                                  (vni_type v = ''L3'' \<longrightarrow> vrf v \<noteq> None) \<and>
                                  vni_state v \<noteq> Some ''Down'')) \<and>
             (issues \<noteq> [] \<longrightarrow>
                \<not> passed r \<and> severity r = Error \<and> map_of (details r) ''issues'' = Some (DStrs issues)) \<and>
             (issues = [] \<longrightarrow>
                (passed r \<longleftrightarrow>
                   rat_of_int (int (length vnis)) / rat_of_int (max_vni_count cfg) * 100 < 75)))"
proof -
  obtain u where u: "validate_vni_usage cfg (int (length vnis)) = Inr u"
    and pu: "passed u \<longleftrightarrow> rat_of_int (int (length vnis)) / rat_of_int (max_vni_count cfg) * 100 < 75"
    using vni_usage_tiers [OF assms(2)] by blast
  define issues where "issues = concat (map vni_issues vnis)"
  define r where "r = vni_configuration_result cfg vnis"
  have c: "map utils_vni_issues vnis = map vni_issues vnis"
    by (simp add: utils_vni_issues_eq)
  have 1: "length issues =
             length (filter (\<lambda>v. vni_type v = ''L2'' \<and> vlan v = None) vnis)
             + length (filter (\<lambda>v. vni_type v = ''L3'' \<and> vrf v = None) vnis)
             + length (filter (\<lambda>v. vni_state v = Some ''Down'') vnis)"
    unfolding issues_def by (rule vni_issues_count)
  have 2: "VXLANValidator_validate_vni_configuration vnis = (issues = [], issues)"
    using assms(1)
    by (simp add: VXLANValidator_validate_vni_configuration_def c Let_def issues_def
        del: concat_eq_Nil_conv)
  have 3: "issues = [] \<longleftrightarrow>
             (\<forall>v \<in> set vnis. (vni_type v = ''L2'' \<longrightarrow> vlan v \<noteq> None) \<and>
                               (vni_type v = ''L3'' \<longrightarrow> vrf v \<noteq> None) \<and>
                               vni_state v \<noteq> Some ''Down'')"
    unfolding issues_def by (rule no_vni_issues_iff)
  have 4: "\<not> passed r \<and> severity r = Error \<and> map_of (details r) ''issues'' = Some (DStrs issues)"
    if "issues \<noteq> []"
    using that assms(1) u
    by (simp add: r_def vni_configuration_result_def Let_def create_result_def issues_def
        del: concat_eq_Nil_conv)
  have 5: "passed r \<longleftrightarrow> rat_of_int (int (length vnis)) / rat_of_int (max_vni_count cfg) * 100 < 75"
    if "issues = []"
    using that assms(1) u pu
    by (simp add: r_def vni_configuration_result_def Let_def create_result_def issues_def
        del: concat_eq_Nil_conv)
  show ?thesis
    unfolding Let_def issues_def [symmetric] r_def [symmetric]
    using 1 2 3 4 5 by blast
qed

theorem association_rule_witness:
  "VXLANValidator_validate_vni_configuration faulty_vnis =
     (False, [''L2 VNI 5001 missing VLAN association'', ''VNI 5001 is in Down state'',
              ''L3 VNI 9001 missing VRF association'']) \<and>
   \<not> passed (vni_configuration_result default_thresholds faulty_vnis) \<and>
   severity (vni_configuration_result default_thresholds faulty_vnis) = Error \<and>
   map_of (details (vni_configuration_result default_thresholds faulty_vnis)) ''issues''
     = Some (DStrs [''L2 VNI 5001 missing VLAN association'', ''VNI 5001 is in Down state'',
                    ''L3 VNI 9001 missing VRF association'']) \<and>
   VXLANValidator_validate_vni_configuration three_vnis = (True, []) \<and>
   passed (vni_configuration_result default_thresholds three_vnis)"
proof -
  have s: "str_int 5001 = ''5001''" "str_int 9001 = ''9001''"
    by (simp_all add: str_int_def str_nat.simps digit_char_def)
  have i: "concat (map vni_issues faulty_vnis) =
             [''L2 VNI 5001 missing VLAN association'', ''VNI 5001 is in Down state'',
              ''L3 VNI 9001 missing VRF association'']"
    "concat (map vni_issues three_vnis) = []"
    by (simp_all add: faulty_vnis_def three_vnis_def vni_issues_def s)
  have n: "faulty_vnis \<noteq> []" "three_vnis \<noteq> []" "max_vni_count default_thresholds \<noteq> 0"
    "length faulty_vnis = 2" "length three_vnis = 3" "max_vni_count default_thresholds = 12000"
    by (simp_all add: faulty_vnis_def three_vnis_def default_thresholds_def)
  from association_rule [OF n(1) n(3)] association_rule [OF n(2) n(3)] i n
  show ?thesis by (simp add: Let_def)
qed

theorem association_rule_counterexample:
  "parse_vni_info three_vnis_output = three_vnis \<and>
   concat (map vni_issues three_vnis) = [] \<and>
   \<not> passed (validate_vni_configuration four_vni_thresholds (const_device three_vnis_output) ''leaf1'') \<and>
   severity (validate_vni_configuration four_vni_thresholds (const_device three_vnis_output) ''leaf1'')
     = Warning"
proof -
  have p: "parse_vni_info three_vnis_output = three_vnis" by code_simp
  have g: "py_in ''VNI'' three_vnis_output" by code_simp
  have i: "concat (map vni_issues three_vnis) = []"
    by (simp add: three_vnis_def vni_issues_def)
  have l: "three_vnis \<noteq> []" "length three_vnis = 3" by (simp_all add: three_vnis_def)
  have u: "validate_vni_usage four_vni_thresholds 3 =
             Inr (create_result False (''High VNI usage: '' @ str_int 3 @ ''/'' @ str_int 4 @ '' (''
                    @ fmt_1f 75 @ ''%)'')
                  [(''percentage'', DFloat 75), (''current'', DInt 3), (''max'', DInt 4)]
                  [''Monitor VNI growth trends'', ''Plan for capacity expansion'',
                   ''Optimize VNI allocation''] Warning)"
    by (simp add: validate_vni_usage_def four_vni_thresholds_def default_thresholds_def Let_def)
  show ?thesis
    by (simp add: p g i l u validate_vni_configuration_def execute_command_def const_device_def
        vni_configuration_result_def Let_def create_result_def)
qed

lemma map_of_dict_set: "map_of (dict_set k v kvs) k = Some v"
  by (induction kvs) auto

text \<open>
  C6 (amended). The VNI check runs the association rule and the usage rule but does not
  merge them. When the association rule finds an issue, the result is that rule's alone:
  failing, severity error, its own message and its three recommendations, whatever the
  usage rule returned. When it finds none, the result takes \<open>passed\<close>, the severity
  and the recommendations of the usage rule, under the message that counts the VNIs.
  The counterexample has two faulty VNIs and a maximum of two: usage is critical, the
  result has severity error, and none of the usage recommendations is reported.
\<close>

theorem combined_vni_result:
  assumes "vnis \<noteq> []" and "validate_vni_usage cfg (int (length vnis)) = Inr u"
  shows "(let issues = concat (map vni_issues vnis); r = vni_configuration_result cfg vnis
          in (issues \<noteq> [] \<longrightarrow>
                \<not> passed r \<and> severity r = Error \<and>
                message r = ''VNI configuration issues found: '' @ str_int (int (length issues))
                            @ '' problems'' \<and>
                recommendations r = [''Fix VNI-to-VLAN/VRF mappings'',
                                     ''Check VNI state and troubleshoot down VNIs'',
                                     ''Verify consistent configuration across fabric'']) \<and>
             (issues = [] \<longrightarrow>
                passed r = passed u \<and> severity r = severity u \<and>
                recommendations r = (if passed u then [] else recommendations u) \<and>
                message r = ''Found '' @ str_int (int (length vnis)) @ '' properly configured VNIs (''
                            @ str_int (int (length (filter (\<lambda>v. vni_type v = ''L2'') vnis))) @ '' L2, ''
                            @ str_int (int (length (filter (\<lambda>v. vni_type v = ''L3'') vnis))) @ '' L3)''))"
  using assms
  by (simp add: Let_def vni_configuration_result_def create_result_def del: concat_eq_Nil_conv)

theorem combined_vni_result_witness:
  "severity (vni_configuration_result two_vni_thresholds faulty_vnis) = Error \<and>
   recommendations (vni_configuration_result two_vni_thresholds faulty_vnis)
     = [''Fix VNI-to-VLAN/VRF mappings'', ''Check VNI state and troubleshoot down VNIs'',
        ''Verify consistent configuration across fabric''] \<and>
   severity (vni_configuration_result four_vni_thresholds three_vnis) = Warning \<and>
   recommendations (vni_configuration_result four_vni_thresholds three_vnis)
     = [''Monitor VNI growth trends'', ''Plan for capacity expansion'', ''Optimize VNI allocation'']"
proof -
  have n: "faulty_vnis \<noteq> []" "three_vnis \<noteq> []" "length faulty_vnis = 2" "length three_vnis = 3"
    by (simp_all add: faulty_vnis_def three_vnis_def)
  have i: "concat (map vni_issues faulty_vnis) \<noteq> []" "concat (map vni_issues three_vnis) = []"
    by (simp_all add: faulty_vnis_def three_vnis_def vni_issues_def)
  have u2: "validate_vni_usage two_vni_thresholds (int (length faulty_vnis)) =
             Inr (create_result False (''Critical VNI usage: '' @ str_int 2 @ ''/'' @ str_int 2 @ '' (''
                    @ fmt_1f 100 @ ''%)'')
                  [(''percentage'', DFloat 100), (''current'', DInt 2), (''max'', DInt 2)]
                  [''Immediate action required - approaching VNI limit'',
                   ''Review and remove unused VNIs'',
                   ''Consider VNI consolidation strategies'',
                   ''Plan for additional hardware if needed''] Critical)"
    by (simp add: n validate_vni_usage_def two_vni_thresholds_def default_thresholds_def Let_def)
  have u4: "validate_vni_usage four_vni_thresholds (int (length three_vnis)) =
             Inr (create_result False (''High VNI usage: '' @ str_int 3 @ ''/'' @ str_int 4 @ '' (''
                    @ fmt_1f 75 @ ''%)'')
                  [(''percentage'', DFloat 75), (''current'', DInt 3), (''max'', DInt 4)]
                  [''Monitor VNI growth trends'', ''Plan for capacity expansion'',
                   ''Optimize VNI allocation''] Warning)"
    by (simp add: n validate_vni_usage_def four_vni_thresholds_def default_thresholds_def Let_def)
  from combined_vni_result [OF n(1) u2] combined_vni_result [OF n(2) u4] i
  show ?thesis by (simp add: Let_def create_result_def del: concat_eq_Nil_conv)
qed

theorem combined_vni_result_counterexample:
  "severity (vni_configuration_result two_vni_thresholds faulty_vnis) = Error \<and>
   \<not> isl (validate_vni_usage two_vni_thresholds (int (length faulty_vnis))) \<and>
   severity (projr (validate_vni_usage two_vni_thresholds (int (length faulty_vnis)))) = Critical \<and>
   worst_severity Error Critical = Critical \<and>
   severity (vni_configuration_result two_vni_thresholds faulty_vnis) \<noteq> worst_severity Error Critical \<and>
   set (recommendations (projr (validate_vni_usage two_vni_thresholds (int (length faulty_vnis)))))
     \<inter> set (recommendations (vni_configuration_result two_vni_thresholds faulty_vnis)) = {}"
proof -
  have n: "faulty_vnis \<noteq> []" "length faulty_vnis = 2"
    by (simp_all add: faulty_vnis_def)
  have i: "concat (map vni_issues faulty_vnis) \<noteq> []"
    by (simp add: faulty_vnis_def vni_issues_def)
  have u2: "validate_vni_usage two_vni_thresholds 2 =
             Inr (create_result False (''Critical VNI usage: '' @ str_int 2 @ ''/'' @ str_int 2 @ '' (''
                    @ fmt_1f 100 @ ''%)'')
                  [(''percentage'', DFloat 100), (''current'', DInt 2), (''max'', DInt 2)]
                  [''Immediate action required - approaching VNI limit'',
                   ''Review and remove unused VNIs'',
                   ''Consider VNI consolidation strategies'',
                   ''Plan for additional hardware if needed''] Critical)"
    by (simp add: validate_vni_usage_def two_vni_thresholds_def default_thresholds_def Let_def)
  show ?thesis
    using i
    by (simp add: n u2 vni_configuration_result_def Let_def create_result_def worst_severity_def
        del: concat_eq_Nil_conv)
qed

text \<open>
  C9 (amended). Every check yields exactly one result. \<open>validate_and_process\<close> returns
  one result and records it under the device and test name; when the validator raised,
  that result is failing with severity error. A validator whose command fails catches the
  exception itself: the platform, feature, NVE interface, NVE peers, VNI configuration and
  BGP EVPN validators return a failing result of severity error (so does the VNI
  validator when the configured maximum is zero), whereas the ingress-replication and
  EVPN-routes validators return a passing result of severity info.
\<close>

theorem check_yields_one_result:
  "(let (r, verdict, results') = validate_and_process device_name test_name outcome results
    in (case map_of results' device_name of
          Some tests \<Rightarrow> map_of tests test_name = Some r
        | None \<Rightarrow> False) \<and>
       (case outcome of
          Inr r0 \<Rightarrow> r = r0
        | Inl e \<Rightarrow> \<not> passed r \<and> severity r = Error)) \<and>
   (dev show_version = Inl e \<longrightarrow>
      \<not> passed (validate_platform_support dev device_name) \<and>
      severity (validate_platform_support dev device_name) = Error) \<and>
   (dev show_feature = Inl e \<longrightarrow>
      \<not> passed (validate_vxlan_features dev device_name) \<and>
      severity (validate_vxlan_features dev device_name) = Error) \<and>
   (dev show_nve_interface = Inl e \<longrightarrow>
      \<not> passed (validate_nve_interface dev device_name) \<and>
      severity (validate_nve_interface dev device_name) = Error) \<and>
   (dev show_nve_peers = Inl e \<longrightarrow>
      \<not> passed (validate_nve_peers dev device_name) \<and>
      severity (validate_nve_peers dev device_name) = Error) \<and>
   (dev show_nve_vni = Inl e \<longrightarrow>
      \<not> passed (validate_vni_configuration cfg dev device_name) \<and>
      severity (validate_vni_configuration cfg dev device_name) = Error) \<and>
   (max_vni_count cfg = 0 \<and> vnis \<noteq> [] \<longrightarrow>
      \<not> passed (vni_configuration_result cfg vnis) \<and>
      severity (vni_configuration_result cfg vnis) = Error) \<and>
   (dev show_bgp_evpn_summary = Inl e \<longrightarrow>
      \<not> passed (validate_bgp_evpn dev device_name) \<and>
      severity (validate_bgp_evpn dev device_name) = Error) \<and>
   (dev show_nve_vni_ingress = Inl e \<longrightarrow>
      passed (validate_ingress_replication dev device_name) \<and>
      severity (validate_ingress_replication dev device_name) = Info) \<and>
   (dev (show_bgp_evpn_routes @ '' | include '' @ [CHR 0x27] @ ''Route Distinguisher'' @ [CHR 0x27]) = Inl e \<longrightarrow>
      passed (validate_evpn_routes dev device_name) \<and>
      severity (validate_evpn_routes dev device_name) = Info)"
proof -
  have a: "(let (r, verdict, results') = validate_and_process device_name test_name outcome results
    in (case map_of results' device_name of
          Some tests \<Rightarrow> map_of tests test_name = Some r
        | None \<Rightarrow> False) \<and>
       (case outcome of
          Inr r0 \<Rightarrow> r = r0
        | Inl e \<Rightarrow> \<not> passed r \<and> severity r = Error))"
    by (auto simp: validate_and_process_def process_validation_result_def record_test_result_def
        Let_def map_of_dict_set split: sum.splits exn.splits)
  have b: "max_vni_count cfg = 0 \<and> vnis \<noteq> [] \<longrightarrow>
      \<not> passed (vni_configuration_result cfg vnis) \<and>
      severity (vni_configuration_result cfg vnis) = Error"
    by (simp add: vni_configuration_result_def validate_vni_usage_def Let_def create_result_def)
  show ?thesis
    apply (rule conjI [OF a])
    apply (simp add: b)
    apply (simp add: validate_platform_support_def validate_vxlan_features_def
        validate_nve_interface_def validate_nve_peers_def validate_vni_configuration_def
        validate_bgp_evpn_def validate_ingress_replication_def validate_evpn_routes_def
        execute_command_def create_result_def)
    done
qed

theorem check_yields_one_result_witness:
  "\<not> passed (fst (validate_and_process ''leaf1'' ''bgp_evpn_neighbors''
                    (Inl (PyException ''KeyError'' ''state'')) [])) \<and>
   severity (fst (validate_and_process ''leaf1'' ''bgp_evpn_neighbors''
                    (Inl (PyException ''KeyError'' ''state'')) [])) = Error \<and>
   severity (validate_bgp_evpn (failing_device ''timeout'') ''leaf1'') = Error \<and>
   severity (vni_configuration_result (default_thresholds\<lparr>max_vni_count := 0\<rparr>) three_vnis) = Error \<and>
   passed (validate_evpn_routes (failing_device ''timeout'') ''leaf1'')"
proof -
  have f: "\<And>e c. failing_device e c = Inl e" by (simp add: failing_device_def)
  have n: "three_vnis \<noteq> []" by (simp add: three_vnis_def)
  from check_yields_one_result [where device_name = "''leaf1''" and test_name = "''bgp_evpn_neighbors''"
      and outcome = "Inl (PyException ''KeyError'' ''state'')" and results = "[]"
      and dev = "failing_device ''timeout''" and e = "''timeout''"
      and cfg = "default_thresholds\<lparr>max_vni_count := 0\<rparr>" and vnis = three_vnis] f n
  show ?thesis by (simp add: Let_def split: prod.splits)
qed

theorem check_yields_one_result_counterexample:
  "passed (validate_ingress_replication (failing_device ''timeout'') ''leaf1'') \<and>
   severity (validate_ingress_replication (failing_device ''timeout'') ''leaf1'') = Info \<and>
   passed (validate_evpn_routes (failing_device ''timeout'') ''leaf1'') \<and>
   severity (validate_evpn_routes (failing_device ''timeout'') ''leaf1'') = Info"
  by (simp add: validate_ingress_replication_def validate_evpn_routes_def execute_command_def
      failing_device_def create_result_def)










text \<open>
  C8. Summary report at the failing input: the prerequisite test case recorded a critical
  failure for \<open>leaf1\<close> and the BGP test case, later in the list, a passing result.
  \<open>all_results.update\<close> replaces the entry of the device, so only the BGP results are
  left and the device is counted healthy; with the prerequisite results alone it is not.
  The metrics of the same two test cases are merged per device.
\<close>

theorem summary_drops_earlier_results:
  "collect_results [prerequisite_results, bgp_results] = bgp_results \<and>
   overall_summary [prerequisite_results, bgp_results] [''leaf1''] = (1, 1) \<and>
   overall_summary [prerequisite_results] [''leaf1''] = (1, 0) \<and>
   collect_metrics [[(''leaf1'', [(''nxos_version'', DStr ''6.2'')])],
                    [(''leaf1'', [(''bgp_evpn_neighbors'', DInt 2)])]]
     = [(''leaf1'', [(''nxos_version'', DStr ''6.2''), (''bgp_evpn_neighbors'', DInt 2)])]"
  by (simp add: collect_results_def dict_update_def prerequisite_results_def bgp_results_def
      overall_summary_def counted_healthy_def device_results_def create_result_def
      collect_metrics_def)

end
